theory Spec2Isabelle
  imports Main "HOL-Library.Word"
begin

section \<open>Qt values used by \<^verbatim>\<open>src/widget/style.cpp\<close>\<close>

text \<open>
  The stylesheet layer of qTox keeps four pieces of process-wide state (the colour
  palette, the placeholder dictionary, the stylesheet cache and the list of images known
  to exist) and talks to the file system and to Qt.  The state becomes a record that
  every operation takes and returns; what Qt and the file system answer becomes a record
  of functions, \<open>qt_env\<close>, that every operation takes as a parameter.  Strings are
  \<^typ>\<open>string\<close>: one \<^typ>\<open>char\<close> stands for one code unit of a \<^verbatim>\<open>QString\<close>.
\<close>

subsection \<open>Colours\<close>

text \<open>
  A \<^verbatim>\<open>QColor\<close> is the invalid colour (what \<^verbatim>\<open>QColor()\<close> builds) or an RGB triple
  of bytes.  \<^verbatim>\<open>QColor::name()\<close> prints \<^verbatim>\<open>#rrggbb\<close> in lower-case hexadecimal; for
  the invalid colour, whose components are zero, it prints \<^verbatim>\<open>#000000\<close>.
\<close>

datatype qcolor = QColorInvalid | QColorRgb "8 word" "8 word" "8 word"

fun isValid :: "qcolor \<Rightarrow> bool" where
  "isValid QColorInvalid = False"
| "isValid (QColorRgb r g b) = True"

definition hex_digit :: "nat \<Rightarrow> char" where
  "hex_digit n = ''0123456789abcdef'' ! (n mod 16)"

definition hex_byte :: "8 word \<Rightarrow> string" where
  "hex_byte w = [hex_digit (unat w div 16), hex_digit (unat w mod 16)]"

fun color_name :: "qcolor \<Rightarrow> string" where
  "color_name QColorInvalid = ''#000000''"
| "color_name (QColorRgb r g b) = CHR ''#'' # hex_byte r @ hex_byte g @ hex_byte b"

subsection \<open>Fonts\<close>

text \<open>
  Of a \<^verbatim>\<open>QFont\<close> the code reads and writes the family, the pixel size and the weight.
  The weights are Qt's constants \<^verbatim>\<open>QFont::Light = 25\<close>, \<^verbatim>\<open>QFont::Normal = 50\<close> and
  \<^verbatim>\<open>QFont::Bold = 75\<close>.
\<close>

record qfont =
  family :: string
  pixelSize :: int
  weight :: int

definition QFont_Light :: int where "QFont_Light = 25"

definition QFont_Normal :: int where "QFont_Normal = 50"

definition QFont_Bold :: int where "QFont_Bold = 75"

subsection \<open>What Qt and the file system answer\<close>

text \<open>
  \<^item> \<open>locateAppData p\<close>: \<^verbatim>\<open>QStandardPaths::locate(AppDataLocation, p, LocateDirectory)\<close>,
    the empty string when no such directory is found;
  \<^item> \<open>dirSeparator\<close>: \<^verbatim>\<open>QDir::separator()\<close>;
  \<^item> \<open>openReadText p\<close>: \<^verbatim>\<open>QFile{p}.open(ReadOnly | Text)\<close> followed by
    \<^verbatim>\<open>readAll()\<close>, the text read as the \<^verbatim>\<open>QString\<close> holds it, \<open>None\<close> when
    the file cannot be opened;
  \<^item> \<open>fileExists p\<close>: \<^verbatim>\<open>QFileInfo::exists(p)\<close>;
  \<^item> \<open>defaultFont\<close>: the font \<^verbatim>\<open>QFont()\<close> builds;
  \<^item> \<open>fontInfoPixelSize f\<close>: \<^verbatim>\<open>QFontInfo(f).pixelSize()\<close>;
  \<^item> \<open>darker c f\<close>, \<open>lighter c f\<close>: \<^verbatim>\<open>c.darker(f)\<close>, \<^verbatim>\<open>c.lighter(f)\<close>.
\<close>

record qt_env =
  locateAppData :: "string \<Rightarrow> string"
  dirSeparator :: char
  openReadText :: "string \<Rightarrow> string option"
  fileExists :: "string \<Rightarrow> bool"
  defaultFont :: qfont
  fontInfoPixelSize :: "qfont \<Rightarrow> int"
  darker :: "qcolor \<Rightarrow> int \<Rightarrow> qcolor"
  lighter :: "qcolor \<Rightarrow> int \<Rightarrow> qcolor"

subsection \<open>Numbers and place markers in strings\<close>

definition digit_char :: "nat \<Rightarrow> char" where
  "digit_char n = ''0123456789'' ! (n mod 10)"

fun decimal_nat :: "nat \<Rightarrow> string" where
  "decimal_nat n =
     (if n < 10 then [digit_char n] else decimal_nat (n div 10) @ [digit_char (n mod 10)])"

declare decimal_nat.simps [simp del]

text \<open>\<^verbatim>\<open>QString::arg(int)\<close> prints its argument in base ten.\<close>

definition decimal :: "int \<Rightarrow> string" where
  "decimal i = (if i < 0 then CHR ''-'' # decimal_nat (nat (- i)) else decimal_nat (nat i))"

text \<open>
  \<^verbatim>\<open>QString::arg(a)\<close> looks for place markers: a percent sign, an optional \<^verbatim>\<open>L\<close>,
  and one or two digits.  It replaces every marker that carries the lowest number
  found by \<open>a\<close> and leaves the others; a string without a marker is returned as it is.
\<close>

definition digitValue :: "char \<Rightarrow> nat option" where
  "digitValue c =
     (let n = (of_char c :: nat) in if 48 \<le> n \<and> n \<le> 57 then Some (n - 48) else None)"

text \<open>The number of a marker and the count of characters it takes after the percent sign.\<close>

fun escape_number :: "string \<Rightarrow> (nat \<times> nat) option" where
  "escape_number [] = None"
| "escape_number [c] = map_option (\<lambda>d. (d, 1)) (digitValue c)"
| "escape_number (c # c' # cs) =
     (case digitValue c of
        None \<Rightarrow> None
      | Some d \<Rightarrow>
          (case digitValue c' of None \<Rightarrow> Some (d, 1) | Some d' \<Rightarrow> Some (10 * d + d', 2)))"

fun escape_at :: "string \<Rightarrow> (nat \<times> nat) option" where
  "escape_at [] = None"
| "escape_at (c # cs) =
     (if c = CHR ''L'' then map_option (\<lambda>(n, l). (n, Suc l)) (escape_number cs)
      else escape_number (c # cs))"

text \<open>
  The string cut into single characters (\<open>None\<close>) and markers (\<open>Some\<close> of their number);
  the first argument counts the characters of a marker still to skip.
\<close>

fun arg_tokens :: "nat \<Rightarrow> string \<Rightarrow> (nat option \<times> string) list" where
  "arg_tokens k [] = []"
| "arg_tokens (Suc k) (c # cs) = arg_tokens k cs"
| "arg_tokens 0 (c # cs) =
     (if c = CHR ''%'' then
        (case escape_at cs of
           Some (n, len) \<Rightarrow> (Some n, c # take len cs) # arg_tokens len cs
         | None \<Rightarrow> (None, [c]) # arg_tokens 0 cs)
      else (None, [c]) # arg_tokens 0 cs)"

definition min_escape :: "(nat option \<times> string) list \<Rightarrow> nat option" where
  "min_escape ts =
     (case List.map_filter fst ts of [] \<Rightarrow> None | n # ns \<Rightarrow> Some (fold min ns n))"

definition qstring_arg :: "string \<Rightarrow> string \<Rightarrow> string" where
  "qstring_arg s a =
     (let ts = arg_tokens 0 s in
      case min_escape ts of
        None \<Rightarrow> s
      | Some m \<Rightarrow> concat (map (\<lambda>(n, t). if n = Some m then a else t) ts))"

subsection \<open>Searching and replacing in strings\<close>

text \<open>
  \<^verbatim>\<open>QString::replace(before, after)\<close> replaces every occurrence of its first
  argument (\<open>old\<close> below) by its second (\<open>new\<close>), scanning from the left and going
  on behind each occurrence; \<^verbatim>\<open>QString::remove(before)\<close> removes them.  (Both are
  called here with a non-empty first argument only; the model leaves the text as it is
  for an empty one.)
\<close>

definition starts_with :: "string \<Rightarrow> string \<Rightarrow> bool" where
  "starts_with p s = (take (length p) s = p)"

function replace_all :: "string \<Rightarrow> string \<Rightarrow> string \<Rightarrow> string" where
  "replace_all old new [] = []"
| "replace_all old new (c # cs) =
     (if old \<noteq> [] \<and> starts_with old (c # cs)
      then new @ replace_all old new (drop (length old) (c # cs))
      else c # replace_all old new cs)"
  by pat_completeness auto
termination
  by (relation "measure (\<lambda>(old, new, s). length s)") auto

definition remove_all :: "string \<Rightarrow> string \<Rightarrow> string" where
  "remove_all old s = replace_all old [] s"

text \<open>\<^verbatim>\<open>QString::chop(1)\<close> removes the last character.\<close>

definition chop1 :: "string \<Rightarrow> string" where
  "chop1 s = butlast s"

text \<open>
  The classes of the regular expressions, as PCRE reads them without the Unicode
  option: \<^verbatim>\<open>\w\<close> is a letter, a digit or the underscore, \<^verbatim>\<open>\s\<close> is a space,
  a tab, a line feed, a vertical tab, a form feed or a carriage return.
\<close>

definition is_word_char :: "char \<Rightarrow> bool" where
  "is_word_char c =
     (let n = (of_char c :: nat) in
      (48 \<le> n \<and> n \<le> 57) \<or> (65 \<le> n \<and> n \<le> 90) \<or> (97 \<le> n \<and> n \<le> 122) \<or> n = 95)"

definition is_space_char :: "char \<Rightarrow> bool" where
  "is_space_char c = (let n = (of_char c :: nat) in (9 \<le> n \<and> n \<le> 13) \<or> n = 32)"

text \<open>
  \<^verbatim>\<open>QRegularExpression(key % "\\b")\<close> for a key made of \<^verbatim>\<open>@\<close> and letters, as all
  keys of the dictionary are: the key itself, then a word boundary.  Behind the key
  there is a boundary when exactly one of the key's last character and the next
  character of the text (if any) is a word character.
\<close>

definition token_at :: "string \<Rightarrow> string \<Rightarrow> bool" where
  "token_at key s =
     (key \<noteq> [] \<and> starts_with key s \<and>
      (is_word_char (last key) \<noteq>
         (case drop (length key) s of [] \<Rightarrow> False | c # cs \<Rightarrow> is_word_char c)))"

text \<open>
  \<^verbatim>\<open>qss.replace(QRegularExpression(key % "\\b"), after)\<close>: every match, from the
  left, is replaced by \<open>after\<close> and the search goes on behind the match.  The
  replacement is a colour name or a font description and is put in as it is (Qt would
  read a backslash followed by a digit in it as a back-reference; a colour name has
  none, and the model takes it that a font family has none).
\<close>

function replace_token :: "string \<Rightarrow> string \<Rightarrow> string \<Rightarrow> string" where
  "replace_token key after [] = []"
| "replace_token key after (c # cs) =
     (if token_at key (c # cs)
      then after @ replace_token key after (drop (length key) (c # cs))
      else c # replace_token key after cs)"
  by pat_completeness auto
termination
  by (relation "measure (\<lambda>(k, a, s). length s)") (auto simp: token_at_def)

text \<open>Whether the text has a match of the key's regular expression anywhere.\<close>

fun has_token :: "string \<Rightarrow> string \<Rightarrow> bool" where
  "has_token key [] = False"
| "has_token key (c # cs) = (token_at key (c # cs) \<or> has_token key cs)"

text \<open>
  The regular expression \<^verbatim>\<open>@getImagePath\([^)\s]*\)\<close> at the start of a text: the
  opening phrase, the longest run of characters that are neither a closing
  parenthesis nor white space, and a closing parenthesis.  (A shorter run would stop
  before a character of the run, which is no parenthesis, so the longest run decides.)
  The result is the matched text, \<^verbatim>\<open>captured(0)\<close>.
\<close>

definition getImagePath_open :: string where
  "getImagePath_open = ''@getImagePath(''"

definition image_match_at :: "string \<Rightarrow> string option" where
  "image_match_at s =
     (if starts_with getImagePath_open s then
        (let rest = drop (length getImagePath_open) s;
             arg = takeWhile (\<lambda>c. c \<noteq> CHR '')'' \<and> \<not> is_space_char c) rest
         in case drop (length arg) rest of
              [] \<Rightarrow> None
            | c # cs \<Rightarrow>
                if c = CHR '')'' then Some (getImagePath_open @ arg @ [c]) else None)
      else None)"

text \<open>
  \<^verbatim>\<open>re.globalMatch(qss)\<close>: the matches from left to right, none overlapping another.
\<close>

function globalMatch :: "string \<Rightarrow> string list" where
  "globalMatch [] = []"
| "globalMatch (c # cs) =
     (case image_match_at (c # cs) of
        Some m \<Rightarrow> m # globalMatch (drop (length m) (c # cs))
      | None \<Rightarrow> globalMatch cs)"
  by pat_completeness auto
termination
proof (relation "measure length")
  fix c :: char and cs m :: string
  assume "image_match_at (c # cs) = Some m"
  then obtain arg where "m = getImagePath_open @ arg @ [CHR '')'']"
    by (auto simp: image_match_at_def Let_def split: if_splits list.splits)
  then have "0 < length m" by simp
  then show "(drop (length m) (c # cs), c # cs) \<in> measure length" by simp
qed simp_all

section \<open>The state of \<^verbatim>\<open>style.cpp\<close>\<close>

subsection \<open>Enumerations\<close>

text \<open>
  Modelled from the spec: the declarations of \<^verbatim>\<open>Style::ColorPalette\<close> and
  \<^verbatim>\<open>Style::Font\<close> are in \<^verbatim>\<open>style.h\<close>, which is not among the sources.  The spec
  lists the static colours, the four accent slots and the seven fonts; the constants
  are the ones \<^verbatim>\<open>style.cpp\<close> uses, in the order of the initialiser of \<^verbatim>\<open>palette\<close>,
  of the dictionary built in \<^verbatim>\<open>resolve\<close> and of the table in \<^verbatim>\<open>getFont\<close>.
\<close>

datatype ColorPalette =
    Green | Yellow | Red | Black | DarkGrey | MediumGrey | MediumGreyLight | LightGrey
  | White | Orange | ThemeDark | ThemeMediumDark | ThemeMedium | ThemeLight

datatype Font = ExtraBig | Big | BigBold | Medium | MediumBold | Small | SmallLight

subsection \<open>The dictionary, a \<^verbatim>\<open>QMap<QString, QString>\<close>\<close>

text \<open>
  A \<^verbatim>\<open>QMap\<close> keeps its keys in ascending order, and \<^verbatim>\<open>dict.keys()\<close> lists them
  so; \<^verbatim>\<open>QString\<close>s are compared code unit by code unit.  The dictionary is an
  association list kept in that order.
\<close>

fun qstring_less :: "string \<Rightarrow> string \<Rightarrow> bool" where
  "qstring_less [] [] = False"
| "qstring_less [] (y # ys) = True"
| "qstring_less (x # xs) [] = False"
| "qstring_less (x # xs) (y # ys) =
     (if x = y then qstring_less xs ys else (of_char x :: nat) < of_char y)"

type_synonym qmap = "(string \<times> string) list"

text \<open>\<^verbatim>\<open>dict[key] = value\<close>: overwrite the key's value, or insert the key in its place.\<close>

fun qmap_insert :: "string \<Rightarrow> string \<Rightarrow> qmap \<Rightarrow> qmap" where
  "qmap_insert k v [] = [(k, v)]"
| "qmap_insert k v ((k', v') # d) =
     (if k = k' then (k, v) # d
      else if qstring_less k k' then (k, v) # (k', v') # d
      else (k', v') # qmap_insert k v d)"

text \<open>A \<^verbatim>\<open>QMap\<close> built from an initialiser list: the pairs inserted one by one.\<close>

definition qmap_of_list :: "(string \<times> string) list \<Rightarrow> qmap" where
  "qmap_of_list kvs = foldl (\<lambda>d (k, v). qmap_insert k v d) [] kvs"

definition qmap_keys :: "qmap \<Rightarrow> string list" where
  "qmap_keys d = map fst d"

text \<open>\<^verbatim>\<open>dict[key]\<close> read for a key of the dictionary (an absent key reads as empty).\<close>

definition qmap_value :: "qmap \<Rightarrow> string \<Rightarrow> string" where
  "qmap_value d k = (case map_of d k of Some v \<Rightarrow> v | None \<Rightarrow> [])"

subsection \<open>The state\<close>

text \<open>Each \<^verbatim>\<open>qWarning()\<close> of the file, with the path it prints.\<close>

datatype warning =
    FailedToOpenFile string           \<comment> \<open>\<^verbatim>\<open>"Failed to open file (using defaults):"\<close>\<close>
  | FailedToOpenDefaultFile string    \<comment> \<open>\<^verbatim>\<open>"Failed to open default file:"\<close>\<close>

text \<open>
  \<^item> \<open>palette\<close>: the static array \<^verbatim>\<open>palette[]\<close>, indexed by \<open>ColorPalette\<close>;
  \<^item> \<open>dict\<close>: the static \<^verbatim>\<open>dict\<close>;
  \<^item> \<open>stylesheetsCache\<close>: \<^verbatim>\<open>Style::stylesheetsCache\<close>, a \<^verbatim>\<open>std::map\<close> from
    (path, font) to text;
  \<^item> \<open>existingImagesCache\<close>: the static \<^verbatim>\<open>QStringList\<close> of that name;
  \<^item> \<open>fontStatics\<close>: the function-local statics \<^verbatim>\<open>defSize\<close> and \<^verbatim>\<open>fonts[]\<close> of
    \<^verbatim>\<open>getFont\<close>, \<open>None\<close> until its first call;
  \<^item> \<open>warnings\<close>: the warnings logged so far, oldest first.
\<close>

record style_state =
  palette :: "ColorPalette \<Rightarrow> qcolor"
  dict :: qmap
  stylesheetsCache :: "string \<times> qfont \<Rightarrow> string option"
  existingImagesCache :: "string list"
  fontStatics :: "(int \<times> (Font \<Rightarrow> qfont)) option"
  warnings :: "warning list"

definition warn :: "warning \<Rightarrow> style_state \<Rightarrow> style_state" where
  "warn w st = st\<lparr>warnings := warnings st @ [w]\<rparr>"

text \<open>The colours of \<^verbatim>\<open>palette[]\<close> as the initialiser writes them.\<close>

definition color_1c1c1c :: qcolor where "color_1c1c1c = QColorRgb 0x1c 0x1c 0x1c"

definition color_2a2a2a :: qcolor where "color_2a2a2a = QColorRgb 0x2a 0x2a 0x2a"

definition color_414141 :: qcolor where "color_414141 = QColorRgb 0x41 0x41 0x41"

definition color_4e4e4e :: qcolor where "color_4e4e4e = QColorRgb 0x4e 0x4e 0x4e"

fun initial_palette :: "qt_env \<Rightarrow> ColorPalette \<Rightarrow> qcolor" where
  "initial_palette env Green = QColorRgb 0x6b 0xc2 0x60"
| "initial_palette env Yellow = QColorRgb 0xce 0xbf 0x44"
| "initial_palette env Red = QColorRgb 0xc8 0x4e 0x4e"
| "initial_palette env Black = QColorRgb 0x00 0x00 0x00"
| "initial_palette env DarkGrey = color_1c1c1c"
| "initial_palette env MediumGrey = color_414141"
| "initial_palette env MediumGreyLight = lighter env color_414141 120"
| "initial_palette env LightGrey = QColorRgb 0xd1 0xd1 0xd1"
| "initial_palette env White = QColorRgb 0xff 0xff 0xff"
| "initial_palette env Orange = QColorRgb 0xff 0x77 0x00"
| "initial_palette env ThemeDark = color_1c1c1c"
| "initial_palette env ThemeMediumDark = color_2a2a2a"
| "initial_palette env ThemeMedium = color_414141"
| "initial_palette env ThemeLight = color_4e4e4e"

text \<open>The state when the program starts.\<close>

definition initial_state :: "qt_env \<Rightarrow> style_state" where
  "initial_state env =
     \<lparr>palette = initial_palette env, dict = [], stylesheetsCache = Map.empty,
      existingImagesCache = [], fontStatics = None, warnings = []\<rparr>"

section \<open>The operations\<close>

subsection \<open>Theme folder\<close>

definition ThemeSubFolder :: string where "ThemeSubFolder = ''themes/''"

definition BuiltinThemePath :: string where "BuiltinThemePath = '':themes/default/''"

definition getThemeName :: string where
  "getThemeName = ''default''"

definition getThemeFolder :: "qt_env \<Rightarrow> string" where
  "getThemeFolder env =
     (let themeName = getThemeName;
          themeFolder = ThemeSubFolder @ themeName;
          fullPath = locateAppData env themeFolder
      in if fullPath = [] then BuiltinThemePath else fullPath @ [dirSeparator env])"

definition themeColorColors :: "qcolor list" where
  "themeColorColors =
     [QColorInvalid, QColorRgb 0x00 0x4a 0xa4, QColorRgb 0x97 0xba 0x00,
      QColorRgb 0xc2 0x37 0x16, QColorRgb 0x46 0x17 0xb5]"

subsection \<open>Image paths\<close>

definition getImagePath :: "qt_env \<Rightarrow> string \<Rightarrow> style_state \<Rightarrow> string \<times> style_state" where
  "getImagePath env filename st =
     (let fullPath = getThemeFolder env @ filename in
      if fullPath \<in> set (existingImagesCache st) then (fullPath, st)
      else if fileExists env fullPath then
        (fullPath, st\<lparr>existingImagesCache := existingImagesCache st @ [fullPath]\<rparr>)
      else
        (let st1 = warn (FailedToOpenFile fullPath) st;
             fullPath' = BuiltinThemePath @ filename
         in if fileExists env fullPath' then (fullPath', st1)
            else ([], warn (FailedToOpenDefaultFile fullPath') st1)))"

subsection \<open>Colours and fonts\<close>

definition getColor :: "ColorPalette \<Rightarrow> style_state \<Rightarrow> qcolor" where
  "getColor entry st = palette st entry"

text \<open>
  \<^verbatim>\<open>appFont\<close> starts from the font \<^verbatim>\<open>QFont()\<close> builds.  \<^verbatim>\<open>QFont::setPixelSize\<close>
  leaves the font as it is for a size that is not positive.
\<close>

definition setPixelSize :: "int \<Rightarrow> qfont \<Rightarrow> qfont" where
  "setPixelSize pixelSize' font = (if pixelSize' \<le> 0 then font else font\<lparr>pixelSize := pixelSize'\<rparr>)"

definition appFont :: "qt_env \<Rightarrow> int \<Rightarrow> int \<Rightarrow> qfont" where
  "appFont env pixelSize' weight' = (setPixelSize pixelSize' (defaultFont env))\<lparr>weight := weight'\<rparr>"

definition qssifyFont :: "qfont \<Rightarrow> string" where
  \<open>qssifyFont font =
     qstring_arg
       (qstring_arg (qstring_arg ''%1 %2px "%3"'' (decimal (weight font * 8)))
          (decimal (pixelSize font)))
       (family font)\<close>

fun font_table :: "qt_env \<Rightarrow> int \<Rightarrow> Font \<Rightarrow> qfont" where
  "font_table env defSize ExtraBig = appFont env (defSize + 3) QFont_Bold"
| "font_table env defSize Big = appFont env (defSize + 1) QFont_Normal"
| "font_table env defSize BigBold = appFont env (defSize + 1) QFont_Bold"
| "font_table env defSize Medium = appFont env defSize QFont_Normal"
| "font_table env defSize MediumBold = appFont env defSize QFont_Bold"
| "font_table env defSize Small = appFont env (defSize - 1) QFont_Normal"
| "font_table env defSize SmallLight = appFont env (defSize - 1) QFont_Light"

text \<open>The statics of \<^verbatim>\<open>getFont\<close> are initialised by its first call and kept.\<close>

definition getFont :: "qt_env \<Rightarrow> Font \<Rightarrow> style_state \<Rightarrow> qfont \<times> style_state" where
  "getFont env font st =
     (case fontStatics st of
        Some (defSize, fonts) \<Rightarrow> (fonts font, st)
      | None \<Rightarrow>
          (let defSize = fontInfoPixelSize env (defaultFont env);
               fonts = font_table env defSize
           in (fonts font, st\<lparr>fontStatics := Some (defSize, fonts)\<rparr>)))"

subsection \<open>Template resolution\<close>

text \<open>The format \<^verbatim>\<open>'%1' %2px\<close> of the \<^verbatim>\<open>@baseFont\<close> entry.\<close>

definition baseFont_format :: string where
  "baseFont_format = CHR 0x27 # ''%1'' @ CHR 0x27 # '' %2px''"

text \<open>
  The dictionary as \<^verbatim>\<open>resolve\<close> builds it when it is empty.  The calls of
  \<^verbatim>\<open>getFont\<close> are threaded through the state, the first of them initialising the
  font table.
\<close>

definition build_dict :: "qt_env \<Rightarrow> qfont \<Rightarrow> style_state \<Rightarrow> qmap \<times> style_state" where
  "build_dict env baseFont st =
     (let (extraBig, st1) = getFont env ExtraBig st;
          (big, st2) = getFont env Big st1;
          (bigBold, st3) = getFont env BigBold st2;
          (medium, st4) = getFont env Medium st3;
          (mediumBold, st5) = getFont env MediumBold st4;
          (small, st6) = getFont env Small st5;
          (smallLight, st7) = getFont env SmallLight st6
      in (qmap_of_list
            [(''@green'', color_name (getColor Green st)),
             (''@yellow'', color_name (getColor Yellow st)),
             (''@red'', color_name (getColor Red st)),
             (''@black'', color_name (getColor Black st)),
             (''@darkGrey'', color_name (getColor DarkGrey st)),
             (''@mediumGrey'', color_name (getColor MediumGrey st)),
             (''@mediumGreyLight'', color_name (getColor MediumGreyLight st)),
             (''@lightGrey'', color_name (getColor LightGrey st)),
             (''@white'', color_name (getColor White st)),
             (''@orange'', color_name (getColor Orange st)),
             (''@themeDark'', color_name (getColor ThemeDark st)),
             (''@themeMediumDark'', color_name (getColor ThemeMediumDark st)),
             (''@themeMedium'', color_name (getColor ThemeMedium st)),
             (''@themeLight'', color_name (getColor ThemeLight st)),
             (''@baseFont'',
              qstring_arg (qstring_arg baseFont_format (family baseFont))
                (decimal (fontInfoPixelSize env baseFont))),
             (''@extraBig'', qssifyFont extraBig),
             (''@big'', qssifyFont big),
             (''@bigBold'', qssifyFont bigBold),
             (''@medium'', qssifyFont medium),
             (''@mediumBold'', qssifyFont mediumBold),
             (''@small'', qssifyFont small),
             (''@smallLight'', qssifyFont smallLight)],
          st7))"

text \<open>The loop over \<^verbatim>\<open>dict.keys()\<close>: one replacement per key, in the order of the keys.\<close>

definition substitute_tokens :: "qmap \<Rightarrow> string \<Rightarrow> string" where
  "substitute_tokens d qss =
     foldl (\<lambda>q key. replace_token key (qmap_value d key) q) qss (qmap_keys d)"

text \<open>
  One round of the \<^verbatim>\<open>while (i.hasNext())\<close> loop, for the match \<open>phrase\<close>.  The test
  of the cache is on \<open>fullPath\<close>, the path of the template, as the source has it.
\<close>

definition image_step ::
  "qt_env \<Rightarrow> string \<Rightarrow> string \<times> style_state \<Rightarrow> string \<Rightarrow> string \<times> style_state" where
  "image_step env fullPath acc phrase =
     (let qss = fst acc; st = snd acc;
          path = chop1 (remove_all getImagePath_open phrase);
          fullImagePath = getThemeFolder env @ path
      in if fullPath \<notin> set (existingImagesCache st) then
           (if fileExists env fullImagePath then
              (replace_all phrase fullImagePath qss,
               st\<lparr>existingImagesCache := existingImagesCache st @ [fullImagePath]\<rparr>)
            else
              (replace_all phrase (BuiltinThemePath @ path) qss,
               warn (FailedToOpenFile fullImagePath) st))
         else (replace_all phrase fullImagePath qss, st))"

text \<open>
  The iterator walks the matches of the text as it was when \<^verbatim>\<open>globalMatch\<close> was
  called; each round replaces in the current text.
\<close>

definition resolve_images ::
  "qt_env \<Rightarrow> string \<Rightarrow> string \<Rightarrow> style_state \<Rightarrow> string \<times> style_state" where
  "resolve_images env fullPath qss st = foldl (image_step env fullPath) (qss, st) (globalMatch qss)"

text \<open>The part of \<^verbatim>\<open>resolve\<close> after the file is read.\<close>

definition resolve_text ::
  "qt_env \<Rightarrow> qfont \<Rightarrow> string \<Rightarrow> string \<Rightarrow> style_state \<Rightarrow> string \<times> style_state" where
  "resolve_text env baseFont fullPath qss st =
     (let st1 = (if dict st = [] then
                   (let (d, st') = build_dict env baseFont st in st'\<lparr>dict := d\<rparr>)
                 else st);
          qss1 = substitute_tokens (dict st1) qss
      in resolve_images env fullPath qss1 st1)"

definition resolve :: "qt_env \<Rightarrow> string \<Rightarrow> qfont \<Rightarrow> style_state \<Rightarrow> string \<times> style_state" where
  "resolve env filename baseFont st =
     (let themePath = getThemeFolder env;
          fullPath = themePath @ filename
      in case openReadText env fullPath of
           Some qss \<Rightarrow> resolve_text env baseFont fullPath qss st
         | None \<Rightarrow>
             (let st1 = warn (FailedToOpenFile fullPath) st;
                  fullPath' = BuiltinThemePath
              in case openReadText env fullPath' of
                   Some qss \<Rightarrow> resolve_text env baseFont fullPath' qss st1
                 | None \<Rightarrow> ([], warn (FailedToOpenDefaultFile fullPath') st1)))"

subsection \<open>The stylesheet cache\<close>

text \<open>\<^verbatim>\<open>std::map::insert\<close> keeps the value of a key that is already there.\<close>

definition stdmap_insert :: "('k \<Rightarrow> 'v option) \<Rightarrow> 'k \<Rightarrow> 'v \<Rightarrow> ('k \<Rightarrow> 'v option)" where
  "stdmap_insert m k v = (case m k of None \<Rightarrow> m(k \<mapsto> v) | Some v' \<Rightarrow> m)"

definition getStylesheet ::
  "qt_env \<Rightarrow> string \<Rightarrow> qfont \<Rightarrow> style_state \<Rightarrow> string \<times> style_state" where
  "getStylesheet env filename baseFont st =
     (let fullPath = getThemeFolder env @ filename;
          cacheKey = (fullPath, baseFont)
      in case stylesheetsCache st cacheKey of
           Some s \<Rightarrow> (s, st)
         | None \<Rightarrow>
             (let (newStylesheet, st1) = resolve env filename baseFont st
              in (newStylesheet,
                  st1\<lparr>stylesheetsCache :=
                        stdmap_insert (stylesheetsCache st1) cacheKey newStylesheet\<rparr>)))"

subsection \<open>Theme colour\<close>

text \<open>\<^verbatim>\<open>Style::setThemeColor(const QColor&)\<close>.\<close>

definition setThemeColor :: "qt_env \<Rightarrow> qcolor \<Rightarrow> style_state \<Rightarrow> style_state" where
  "setThemeColor env color st =
     (let st1 =
            (if \<not> isValid color then
               st\<lparr>palette := (palette st)
                     (ThemeDark := color_1c1c1c, ThemeMediumDark := color_2a2a2a,
                      ThemeMedium := color_414141, ThemeLight := color_4e4e4e)\<rparr>
             else
               st\<lparr>palette := (palette st)
                     (ThemeDark := darker env color 155, ThemeMediumDark := darker env color 135,
                      ThemeMedium := darker env color 120, ThemeLight := lighter env color 110)\<rparr>);
          d1 = qmap_insert ''@themeDark'' (color_name (getColor ThemeDark st1)) (dict st1);
          d2 = qmap_insert ''@themeMediumDark'' (color_name (getColor ThemeMediumDark st1)) d1;
          d3 = qmap_insert ''@themeMedium'' (color_name (getColor ThemeMedium st1)) d2;
          d4 = qmap_insert ''@themeLight'' (color_name (getColor ThemeLight st1)) d3
      in st1\<lparr>dict := d4\<rparr>)"

text \<open>\<^verbatim>\<open>Style::setThemeColor(int)\<close>.\<close>

definition setThemeColor_index :: "qt_env \<Rightarrow> int \<Rightarrow> style_state \<Rightarrow> style_state" where
  "setThemeColor_index env color st =
     (let st1 = st\<lparr>stylesheetsCache := Map.empty\<rparr>
      in if color < 0 \<or> color \<ge> int (length themeColorColors)
         then setThemeColor env QColorInvalid st1
         else setThemeColor env (themeColorColors ! nat color) st1)"

subsection \<open>Sequences of calls\<close>

text \<open>
  A call of one of the functions above, made in an environment of its own (the file
  system may change between two calls), and its effect on the state.
\<close>

datatype call =
    GetStylesheet string qfont
  | GetImagePath string
  | GetColor ColorPalette
  | GetFont Font
  | Resolve string qfont
  | SetThemeColorIndex int
  | SetThemeColor qcolor

fun exec :: "qt_env \<Rightarrow> call \<Rightarrow> style_state \<Rightarrow> style_state" where
  "exec env (GetStylesheet filename baseFont) st = snd (getStylesheet env filename baseFont st)"
| "exec env (GetImagePath filename) st = snd (getImagePath env filename st)"
| "exec env (GetColor entry) st = st"
| "exec env (GetFont font) st = snd (getFont env font st)"
| "exec env (Resolve filename baseFont) st = snd (resolve env filename baseFont st)"
| "exec env (SetThemeColorIndex color) st = setThemeColor_index env color st"
| "exec env (SetThemeColor color) st = setThemeColor env color st"

fun run :: "(qt_env \<times> call) list \<Rightarrow> style_state \<Rightarrow> style_state" where
  "run [] st = st"
| "run ((env, c) # cs) st = run cs (exec env c st)"

section \<open>Calls and states\<close>

text \<open>The calls that clear the stylesheet cache.\<close>

fun clears_cache :: "call \<Rightarrow> bool" where
  "clears_cache (SetThemeColorIndex color) = True"
| "clears_cache c = False"

text \<open>
  The calls that may run \<^verbatim>\<open>resolve\<close>: \<^verbatim>\<open>resolve\<close> itself, and \<^verbatim>\<open>getStylesheet\<close>,
  which calls it on a miss.
\<close>

fun calls_resolve :: "call \<Rightarrow> bool" where
  "calls_resolve (Resolve filename baseFont) = True"
| "calls_resolve (GetStylesheet filename baseFont) = True"
| "calls_resolve c = False"

text \<open>Every path in the list of existing images exists in the environment.\<close>

definition images_exist :: "qt_env \<Rightarrow> style_state \<Rightarrow> bool" where
  "images_exist env st = (\<forall>p \<in> set (existingImagesCache st). fileExists env p)"

text \<open>The keys that \<^verbatim>\<open>resolve\<close> and \<^verbatim>\<open>setThemeColor\<close> put into the dictionary.\<close>

definition recognized_tokens :: "string list" where
  "recognized_tokens =
     [''@green'', ''@yellow'', ''@red'', ''@black'', ''@darkGrey'', ''@mediumGrey'',
      ''@mediumGreyLight'', ''@lightGrey'', ''@white'', ''@orange'', ''@themeDark'',
      ''@themeMediumDark'', ''@themeMedium'', ''@themeLight'', ''@baseFont'', ''@extraBig'',
      ''@big'', ''@bigBold'', ''@medium'', ''@mediumBold'', ''@small'', ''@smallLight'']"

definition dict_recognized :: "style_state \<Rightarrow> bool" where
  "dict_recognized st = (set (qmap_keys (dict st)) \<subseteq> set recognized_tokens)"

text \<open>The four keys of \<^verbatim>\<open>setThemeColor\<close>, in the order of the \<^verbatim>\<open>QMap\<close>.\<close>

definition theme_keys :: "string list" where
  "theme_keys = [''@themeDark'', ''@themeLight'', ''@themeMedium'', ''@themeMediumDark'']"

text \<open>The tokens replaced when the dictionary has the four accent keys only.\<close>

definition substitute_theme_only :: "qmap \<Rightarrow> string \<Rightarrow> string" where
  "substitute_theme_only d qss =
     replace_token ''@themeMediumDark'' (qmap_value d ''@themeMediumDark'')
       (replace_token ''@themeMedium'' (qmap_value d ''@themeMedium'')
          (replace_token ''@themeLight'' (qmap_value d ''@themeLight'')
             (replace_token ''@themeDark'' (qmap_value d ''@themeDark'') qss)))"

section \<open>An example installation\<close>

text \<open>
  A user theme in \<^verbatim>\<open>/themes/default/\<close> with five templates and one image, and one
  image and one template in the built-in theme only.  The functions \<open>example_darker\<close> and
  \<open>example_lighter\<close> stand in for \<^verbatim>\<open>QColor::darker\<close> and \<^verbatim>\<open>QColor::lighter\<close> in the
  examples and are not Qt's functions: they scale each of the three components in the
  16 bits in which Qt keeps it (the byte times 257) and cut the result to a byte, where
  Qt scales the value of the colour in HSV, converting through floating point, and
  lowers the saturation when the value overflows.  For the colour of the examples,
  \<^verbatim>\<open>#004aa4\<close>, they give \<^verbatim>\<open>#002f6a\<close>, \<^verbatim>\<open>#003d89\<close> and \<^verbatim>\<open>#0051b5\<close>.  The theorems
  below hold for every environment; the example serves to evaluate them.
\<close>

definition example_scale :: "int \<Rightarrow> int \<Rightarrow> 8 word \<Rightarrow> 8 word" where
  "example_scale num den x = word_of_int (min 65535 (uint x * 257 * num div den) div 256)"

fun example_darker :: "qcolor \<Rightarrow> int \<Rightarrow> qcolor" where
  "example_darker QColorInvalid f = QColorInvalid"
| "example_darker (QColorRgb r g b) f =
     (if f \<le> 0 then QColorRgb r g b
      else if f < 100 then
        QColorRgb (example_scale (10000 div f) 100 r) (example_scale (10000 div f) 100 g)
          (example_scale (10000 div f) 100 b)
      else QColorRgb (example_scale 100 f r) (example_scale 100 f g) (example_scale 100 f b))"

fun example_lighter :: "qcolor \<Rightarrow> int \<Rightarrow> qcolor" where
  "example_lighter QColorInvalid f = QColorInvalid"
| "example_lighter (QColorRgb r g b) f =
     (if f \<le> 0 then QColorRgb r g b
      else if f < 100 then
        QColorRgb (example_scale 100 (10000 div f) r) (example_scale 100 (10000 div f) g)
          (example_scale 100 (10000 div f) b)
      else QColorRgb (example_scale f 100 r) (example_scale f 100 g) (example_scale f 100 b))"

definition example_files :: "(string \<times> string) list" where
  "example_files =
     [(''/themes/default/chat.css'', ''color: @green;''),
      (''/themes/default/theme.css'', ''color: @themeDark;''),
      (''/themes/default/icons.css'',
       ''a { image: url(@getImagePath(ok.svg)) } b { image: url(@getImagePath(m.png)) }''),
      (''/themes/default/plain.css'', ''a { margin: 0; } /* me@example.org */''),
      (''/themes/default/mixed.css'',
       ''a { color: @themeDark; background: @green; font: @baseFont; border-color: @themeLight; }''),
      (''/themes/default/ok.svg'', ''<svg/>''),
      ('':themes/default/b.png'', ''PNG''),
      ('':themes/default/late.css'', ''color: @red;'')]"

definition example_env :: qt_env where
  "example_env =
     \<lparr>locateAppData = (\<lambda>p. if p = ''themes/default'' then ''/themes/default'' else []),
      dirSeparator = CHR ''/'',
      openReadText = map_of example_files,
      fileExists = (\<lambda>p. p \<in> set (map fst example_files)),
      defaultFont = \<lparr>family = ''Sans'', pixelSize = 12, weight = 50\<rparr>,
      fontInfoPixelSize = pixelSize,
      darker = example_darker,
      lighter = example_lighter\<rparr>"

definition example_font :: qfont where
  "example_font = \<lparr>family = ''Arial'', pixelSize = 10, weight = 50\<rparr>"

text \<open>The same installation after \<^verbatim>\<open>late.css\<close> was added to the user theme.\<close>

definition example_env_later :: qt_env where
  "example_env_later =
     example_env
       \<lparr>openReadText := (openReadText example_env)
          (''/themes/default/late.css'' \<mapsto> ''color: @red;''),
        fileExists := (\<lambda>p. p = ''/themes/default/late.css'' \<or> fileExists example_env p)\<rparr>"

text \<open>The installation after \<^verbatim>\<open>ok.svg\<close> was deleted from the user theme.\<close>

definition example_env_deleted :: qt_env where
  "example_env_deleted =
     example_env
       \<lparr>openReadText := (openReadText example_env)(''/themes/default/ok.svg'' := None),
        fileExists := (\<lambda>p. p \<noteq> ''/themes/default/ok.svg'' \<and> fileExists example_env p)\<rparr>"

definition example_plain :: string where
  "example_plain = ''a { margin: 0; } /* me@example.org */''"

definition example_mixed :: string where
  "example_mixed =
     ''a { color: @themeDark; background: @green; font: @baseFont; border-color: @themeLight; }''"

definition example_calls :: "(qt_env \<times> call) list" where
  "example_calls =
     [(example_env_later, Resolve ''late.css'' example_font),
      (example_env_later, SetThemeColor (QColorRgb 0x00 0x4a 0xa4)),
      (example_env_later, GetImagePath ''ok.svg''),
      (example_env_later, GetStylesheet ''chat.css'' example_font)]"

definition example_calls_after :: "(qt_env \<times> call) list" where
  "example_calls_after =
     [(example_env, Resolve ''theme.css'' example_font),
      (example_env_later, GetStylesheet ''icons.css'' example_font),
      (example_env, SetThemeColorIndex 3)]"

definition example_calls_before :: "(qt_env \<times> call) list" where
  "example_calls_before =
     [(example_env, GetImagePath ''ok.svg''), (example_env, GetFont Big),
      (example_env, GetColor Green)]"

section \<open>Properties\<close>

subsection \<open>The dictionary\<close>

lemma map_of_qmap_insert: "map_of (qmap_insert k v d) = (map_of d)(k \<mapsto> v)"
  by (induction d) (auto simp: fun_eq_iff)

lemma keys_dom: "set (qmap_keys d) = dom (map_of d)"
  by (simp add: qmap_keys_def dom_map_of_conv_image_fst)

lemma keys_qmap_insert: "set (qmap_keys (qmap_insert k v d)) = insert k (set (qmap_keys d))"
  by (simp add: keys_dom map_of_qmap_insert)

lemma qmap_insert_not_empty: "qmap_insert k v d \<noteq> []"
  by (cases d) (auto split: if_splits)

lemma keys_qmap_of_list_aux:
  "set (qmap_keys (foldl (\<lambda>d (k, v). qmap_insert k v d) d0 kvs)) = set (qmap_keys d0) \<union> fst ` set kvs"
  by (induction kvs arbitrary: d0) (auto simp: keys_qmap_insert split: prod.splits)

lemma keys_qmap_of_list: "set (qmap_keys (qmap_of_list kvs)) = fst ` set kvs"
  unfolding qmap_of_list_def keys_qmap_of_list_aux by (simp add: qmap_keys_def)

subsection \<open>What each operation leaves alone\<close>

lemma warn_fields [simp]:
  "palette (warn w st) = palette st"
  "dict (warn w st) = dict st"
  "stylesheetsCache (warn w st) = stylesheetsCache st"
  "existingImagesCache (warn w st) = existingImagesCache st"
  "fontStatics (warn w st) = fontStatics st"
  "warnings (warn w st) = warnings st @ [w]"
  by (simp_all add: warn_def)

lemma getFont_fields [simp]:
  "palette (snd (getFont env f st)) = palette st"
  "dict (snd (getFont env f st)) = dict st"
  "stylesheetsCache (snd (getFont env f st)) = stylesheetsCache st"
  "existingImagesCache (snd (getFont env f st)) = existingImagesCache st"
  "warnings (snd (getFont env f st)) = warnings st"
  by (simp_all add: getFont_def Let_def split: option.splits prod.splits)

lemma getImagePath_fields [simp]:
  "palette (snd (getImagePath env f st)) = palette st"
  "dict (snd (getImagePath env f st)) = dict st"
  "stylesheetsCache (snd (getImagePath env f st)) = stylesheetsCache st"
  "fontStatics (snd (getImagePath env f st)) = fontStatics st"
  by (simp_all add: getImagePath_def Let_def)

lemma build_dict_fields [simp]:
  "palette (snd (build_dict env bf st)) = palette st"
  "dict (snd (build_dict env bf st)) = dict st"
  "stylesheetsCache (snd (build_dict env bf st)) = stylesheetsCache st"
  "existingImagesCache (snd (build_dict env bf st)) = existingImagesCache st"
  "warnings (snd (build_dict env bf st)) = warnings st"
  by (simp_all add: build_dict_def Let_def split: prod.splits)
    (metis getFont_fields snd_conv)+

lemma image_step_fields [simp]:
  "palette (snd (image_step env fp acc m)) = palette (snd acc)"
  "dict (snd (image_step env fp acc m)) = dict (snd acc)"
  "stylesheetsCache (snd (image_step env fp acc m)) = stylesheetsCache (snd acc)"
  "fontStatics (snd (image_step env fp acc m)) = fontStatics (snd acc)"
  by (simp_all add: image_step_def Let_def)

lemma foldl_image_step_fields:
  "palette (snd (foldl (image_step env fp) acc ms)) = palette (snd acc) \<and>
   dict (snd (foldl (image_step env fp) acc ms)) = dict (snd acc) \<and>
   stylesheetsCache (snd (foldl (image_step env fp) acc ms)) = stylesheetsCache (snd acc) \<and>
   fontStatics (snd (foldl (image_step env fp) acc ms)) = fontStatics (snd acc)"
  by (induction ms arbitrary: acc) simp_all

lemma resolve_images_fields [simp]:
  "palette (snd (resolve_images env fp qss st)) = palette st"
  "dict (snd (resolve_images env fp qss st)) = dict st"
  "stylesheetsCache (snd (resolve_images env fp qss st)) = stylesheetsCache st"
  "fontStatics (snd (resolve_images env fp qss st)) = fontStatics st"
  using foldl_image_step_fields [of env fp "(qss, st)" "globalMatch qss"]
  by (simp_all add: resolve_images_def)

lemma resolve_text_fields [simp]:
  "palette (snd (resolve_text env bf fp qss st)) = palette st"
  "stylesheetsCache (snd (resolve_text env bf fp qss st)) = stylesheetsCache st"
  "dict (snd (resolve_text env bf fp qss st)) =
     (if dict st = [] then fst (build_dict env bf st) else dict st)"
  by (simp_all add: resolve_text_def Let_def split: prod.splits)
    (metis build_dict_fields snd_conv)+

lemma resolve_fields [simp]:
  "palette (snd (resolve env f bf st)) = palette st"
  "stylesheetsCache (snd (resolve env f bf st)) = stylesheetsCache st"
  by (simp_all add: resolve_def Let_def split: option.splits)

lemma resolve_dict:
  "dict st \<noteq> [] \<Longrightarrow> dict (snd (resolve env f bf st)) = dict st"
  by (simp add: resolve_def Let_def split: option.splits)

lemma setThemeColor_fields [simp]:
  "stylesheetsCache (setThemeColor env c st) = stylesheetsCache st"
  "existingImagesCache (setThemeColor env c st) = existingImagesCache st"
  "fontStatics (setThemeColor env c st) = fontStatics st"
  "warnings (setThemeColor env c st) = warnings st"
  by (simp_all add: setThemeColor_def Let_def)

lemma getStylesheet_fields [simp]:
  "palette (snd (getStylesheet env f bf st)) = palette st"
  by (simp add: getStylesheet_def Let_def split: option.splits prod.splits)
    (metis resolve_fields(1) snd_conv)

subsection \<open>The stylesheet cache\<close>

lemma resolve_no_file:
  "openReadText env (getThemeFolder env @ f) = None \<Longrightarrow>
   openReadText env BuiltinThemePath = None \<Longrightarrow> fst (resolve env f bf st) = []"
  by (simp add: resolve_def Let_def)

lemma getStylesheet_hit:
  "stylesheetsCache st (getThemeFolder env @ f, bf) = Some s \<Longrightarrow>
   getStylesheet env f bf st = (s, st)"
  by (simp add: getStylesheet_def Let_def)

lemma getStylesheet_miss:
  assumes "stylesheetsCache st (getThemeFolder env @ f, bf) = None"
  shows "getStylesheet env f bf st =
     (fst (resolve env f bf st),
      (snd (resolve env f bf st))
        \<lparr>stylesheetsCache :=
           (stylesheetsCache st)((getThemeFolder env @ f, bf) \<mapsto> fst (resolve env f bf st))\<rparr>)"
proof -
  obtain x1 x2 where r: "resolve env f bf st = (x1, x2)"
    by (cases "resolve env f bf st")
  then have "stylesheetsCache x2 = stylesheetsCache st"
    using resolve_fields(2) [of env f bf st] by simp
  with assms r show ?thesis
    by (simp add: getStylesheet_def Let_def stdmap_insert_def)
qed

lemma getStylesheet_stores:
  "stylesheetsCache (snd (getStylesheet env f bf st)) (getThemeFolder env @ f, bf) =
     Some (fst (getStylesheet env f bf st))"
proof (cases "stylesheetsCache st (getThemeFolder env @ f, bf)")
  case None
  then show ?thesis by (simp add: getStylesheet_miss)
next
  case (Some s)
  then show ?thesis by (simp add: getStylesheet_hit)
qed

lemma getStylesheet_keeps:
  "stylesheetsCache st key = Some s \<Longrightarrow>
   stylesheetsCache (snd (getStylesheet env f bf st)) key = Some s"
proof (cases "stylesheetsCache st (getThemeFolder env @ f, bf)")
  case None
  assume "stylesheetsCache st key = Some s"
  with None have "key \<noteq> (getThemeFolder env @ f, bf)" by auto
  with None \<open>stylesheetsCache st key = Some s\<close> show ?thesis
    by (simp add: getStylesheet_miss)
next
  case (Some s')
  assume "stylesheetsCache st key = Some s"
  with Some show ?thesis by (simp add: getStylesheet_hit)
qed

lemma setThemeColor_index_clears:
  "stylesheetsCache (setThemeColor_index env i st) = Map.empty"
  by (simp add: setThemeColor_index_def Let_def)

lemma exec_keeps_entry:
  assumes "\<not> clears_cache c" and "stylesheetsCache st key = Some s"
  shows "stylesheetsCache (exec env c st) key = Some s"
  using assms by (cases c) (simp_all add: getStylesheet_keeps)

lemma run_keeps_entry:
  assumes "\<forall>ec \<in> set calls. \<not> clears_cache (snd ec)" and "stylesheetsCache st key = Some s"
  shows "stylesheetsCache (run calls st) key = Some s"
  using assms
proof (induction calls arbitrary: st)
  case Nil
  then show ?case by simp
next
  case (Cons ec calls)
  obtain env c where ec: "ec = (env, c)" by (cases ec)
  with Cons.prems have "stylesheetsCache (exec env c st) key = Some s"
    by (simp add: exec_keeps_entry)
  with Cons ec show ?case by simp
qed

subsection \<open>Theme colour\<close>

lemma setThemeColor_palette:
  "palette (setThemeColor env c st) =
     (if \<not> isValid c then
        (palette st)
          (ThemeDark := color_1c1c1c, ThemeMediumDark := color_2a2a2a,
           ThemeMedium := color_414141, ThemeLight := color_4e4e4e)
      else
        (palette st)
          (ThemeDark := darker env c 155, ThemeMediumDark := darker env c 135,
           ThemeMedium := darker env c 120, ThemeLight := lighter env c 110))"
  by (simp add: setThemeColor_def Let_def)

lemma setThemeColor_dict:
  "map_of (dict (setThemeColor env c st)) =
     (map_of (dict st))
       (''@themeDark'' \<mapsto> color_name (palette (setThemeColor env c st) ThemeDark),
        ''@themeMediumDark'' \<mapsto> color_name (palette (setThemeColor env c st) ThemeMediumDark),
        ''@themeMedium'' \<mapsto> color_name (palette (setThemeColor env c st) ThemeMedium),
        ''@themeLight'' \<mapsto> color_name (palette (setThemeColor env c st) ThemeLight))"
  by (simp add: setThemeColor_def Let_def map_of_qmap_insert getColor_def)

lemma setThemeColor_clear_commute:
  "setThemeColor env c (st\<lparr>stylesheetsCache := m\<rparr>) =
   (setThemeColor env c st)\<lparr>stylesheetsCache := m\<rparr>"
  by (simp add: setThemeColor_def Let_def getColor_def)

lemma default_color_names:
  "color_name color_1c1c1c = ''#1c1c1c''" "color_name color_2a2a2a = ''#2a2a2a''"
  "color_name color_414141 = ''#414141''" "color_name color_4e4e4e = ''#4e4e4e''"
  by (simp_all add: color_1c1c1c_def color_2a2a2a_def color_414141_def color_4e4e4e_def
      hex_byte_def hex_digit_def)

subsection \<open>The list of existing images\<close>

lemma images_exist_miss:
  "images_exist env st \<Longrightarrow> \<not> fileExists env p \<Longrightarrow> p \<notin> set (existingImagesCache st)"
  by (auto simp: images_exist_def)

lemma images_exist_initial: "images_exist env (initial_state env')"
  by (simp add: images_exist_def initial_state_def)

lemma images_exist_getImagePath:
  "images_exist env st \<Longrightarrow> images_exist env (snd (getImagePath env f st))"
  by (auto simp: images_exist_def getImagePath_def Let_def)

lemma images_exist_image_step:
  "images_exist env (snd acc) \<Longrightarrow> images_exist env (snd (image_step env fp acc m))"
  by (auto simp: images_exist_def image_step_def Let_def)

lemma images_exist_foldl:
  "images_exist env (snd acc) \<Longrightarrow> images_exist env (snd (foldl (image_step env fp) acc ms))"
  by (induction ms arbitrary: acc) (simp_all add: images_exist_image_step)

lemma images_exist_cong:
  "existingImagesCache st' = existingImagesCache st \<Longrightarrow>
   images_exist env st' = images_exist env st"
  by (simp add: images_exist_def)

lemma images_exist_warn [simp]: "images_exist env (warn w st) = images_exist env st"
  by (simp add: images_exist_def)

lemma images_exist_resolve_text:
  assumes "images_exist env st"
  shows "images_exist env (snd (resolve_text env bf fp qss st))"
proof -
  let ?st1 = "if dict st = [] then
      (let (d, st') = build_dict env bf st in st'\<lparr>dict := d\<rparr>) else st"
  have "existingImagesCache ?st1 = existingImagesCache st"
    by (simp add: Let_def split: prod.splits) (metis build_dict_fields(4) snd_conv)
  with assms have "images_exist env ?st1"
    by (simp add: images_exist_def)
  then show ?thesis
    unfolding resolve_text_def resolve_images_def Let_def
    by (intro images_exist_foldl) simp
qed

lemma images_exist_resolve:
  "images_exist env st \<Longrightarrow> images_exist env (snd (resolve env f bf st))"
  by (auto simp: resolve_def Let_def intro!: images_exist_resolve_text split: option.splits)

lemma images_exist_getStylesheet:
  assumes "images_exist env st"
  shows "images_exist env (snd (getStylesheet env f bf st))"
proof (cases "stylesheetsCache st (getThemeFolder env @ f, bf)")
  case None
  have "images_exist env (snd (resolve env f bf st))"
    using assms by (rule images_exist_resolve)
  with None show ?thesis
    by (simp add: getStylesheet_miss images_exist_def)
next
  case (Some s)
  with assms show ?thesis by (simp add: getStylesheet_hit)
qed

lemma images_exist_exec:
  "images_exist env st \<Longrightarrow> images_exist env (exec env c st)"
proof (cases c)
  case (SetThemeColorIndex i)
  assume "images_exist env st"
  then show ?thesis
    unfolding SetThemeColorIndex
    by (simp add: images_exist_def setThemeColor_index_def Let_def)
qed (simp_all add: images_exist_getStylesheet images_exist_getImagePath images_exist_resolve
    images_exist_def [of env "setThemeColor env c st" for c]
    images_exist_def [of env "snd (getFont env f st)" for f]
    images_exist_def [of env st, symmetric])

text \<open>Calls made while the files stay as they are keep the list sound.\<close>

lemma images_exist_run:
  "images_exist env st \<Longrightarrow> images_exist env (run (map (Pair env) calls) st)"
  by (induction calls arbitrary: st) (simp_all add: images_exist_exec)

subsection \<open>Token substitution\<close>

lemma replace_token_no_match: "\<not> has_token key s \<Longrightarrow> replace_token key after s = s"
  by (induction s) simp_all

lemma foldl_replace_token_no_match:
  "\<forall>key \<in> set keys. \<not> has_token key s \<Longrightarrow>
   foldl (\<lambda>q key. replace_token key (g key) q) s keys = s"
  by (induction keys) (simp_all add: replace_token_no_match)

lemma substitute_tokens_no_match:
  "\<forall>key \<in> set (qmap_keys d). \<not> has_token key s \<Longrightarrow> substitute_tokens d s = s"
  by (simp add: substitute_tokens_def foldl_replace_token_no_match)

lemma resolve_images_no_match: "globalMatch s = [] \<Longrightarrow> resolve_images env fp s st = (s, st)"
  by (simp add: resolve_images_def)

lemma dict_recognized_cong:
  "dict st' = dict st \<Longrightarrow> dict_recognized st' = dict_recognized st"
  by (simp add: dict_recognized_def)

lemma build_dict_keys:
  "set (qmap_keys (fst (build_dict env bf st))) = set recognized_tokens"
  by (simp add: build_dict_def Let_def keys_qmap_of_list recognized_tokens_def split: prod.splits)

lemma dict_recognized_initial: "dict_recognized (initial_state env)"
  by (simp add: dict_recognized_def initial_state_def qmap_keys_def)

lemma dict_recognized_resolve:
  "dict_recognized st \<Longrightarrow> dict_recognized (snd (resolve env f bf st))"
  by (auto simp: dict_recognized_def resolve_def Let_def build_dict_keys split: option.splits)

lemma dict_recognized_setThemeColor:
  "dict_recognized st \<Longrightarrow> dict_recognized (setThemeColor env c st)"
  by (simp add: dict_recognized_def keys_dom setThemeColor_dict recognized_tokens_def)

lemma dict_recognized_getStylesheet:
  assumes "dict_recognized st"
  shows "dict_recognized (snd (getStylesheet env f bf st))"
proof (cases "stylesheetsCache st (getThemeFolder env @ f, bf)")
  case None
  have "dict_recognized (snd (resolve env f bf st))"
    using assms by (rule dict_recognized_resolve)
  with None show ?thesis
    by (simp add: getStylesheet_miss dict_recognized_def)
next
  case (Some s)
  with assms show ?thesis by (simp add: getStylesheet_hit)
qed

lemma dict_recognized_exec: "dict_recognized st \<Longrightarrow> dict_recognized (exec env c st)"
proof (cases c)
  case (SetThemeColorIndex i)
  assume "dict_recognized st"
  then have "dict_recognized (st\<lparr>stylesheetsCache := Map.empty\<rparr>)"
    by (simp add: dict_recognized_def)
  then show ?thesis
    unfolding SetThemeColorIndex
    by (simp add: setThemeColor_index_def Let_def dict_recognized_setThemeColor)
qed (simp_all add: dict_recognized_getStylesheet dict_recognized_resolve
    dict_recognized_setThemeColor
    dict_recognized_cong [of "snd (getImagePath env f st)" st for f]
    dict_recognized_cong [of "snd (getFont env f st)" st for f])

lemma dict_recognized_run: "dict_recognized st \<Longrightarrow> dict_recognized (run calls st)"
proof (induction calls arbitrary: st)
  case Nil
  then show ?case by simp
next
  case (Cons ec calls)
  then show ?case by (cases ec) (simp add: dict_recognized_exec)
qed

lemma resolve_text_no_match:
  assumes "dict_recognized st"
    and "\<forall>key \<in> set recognized_tokens. \<not> has_token key qss"
    and "globalMatch qss = []"
  shows "fst (resolve_text env bf fp qss st) = qss"
proof -
  define st1 where "st1 = (if dict st = [] then
      (let (d, st') = build_dict env bf st in st'\<lparr>dict := d\<rparr>) else st)"
  have "set (qmap_keys (dict st1)) \<subseteq> set recognized_tokens"
    using assms(1) build_dict_keys [of env bf st]
    by (auto simp: st1_def dict_recognized_def Let_def split: prod.splits)
  with assms(2) have "substitute_tokens (dict st1) qss = qss"
    by (intro substitute_tokens_no_match) blast
  with assms(3) show ?thesis
    by (simp add: resolve_text_def Let_def st1_def [symmetric] resolve_images_no_match)
qed

subsection \<open>A dictionary with the accent entries only\<close>

lemma setThemeColor_keys_from_empty:
  "dict st = [] \<Longrightarrow> qmap_keys (dict (setThemeColor env c st)) = theme_keys"
  by (simp add: setThemeColor_def Let_def qmap_keys_def theme_keys_def)

lemma setThemeColor_keys_again:
  assumes "qmap_keys (dict st) = theme_keys"
  shows "qmap_keys (dict (setThemeColor env c st)) = theme_keys"
proof -
  from assms obtain v1 v2 v3 v4 where
    "dict st = [(''@themeDark'', v1), (''@themeLight'', v2), (''@themeMedium'', v3),
                (''@themeMediumDark'', v4)]"
    by (auto simp: qmap_keys_def theme_keys_def map_eq_Cons_conv)
  then show ?thesis
    by (simp add: setThemeColor_def Let_def qmap_keys_def theme_keys_def)
qed

lemma theme_keys_not_empty: "qmap_keys (dict st) = theme_keys \<Longrightarrow> dict st \<noteq> []"
  by (auto simp: qmap_keys_def theme_keys_def)

lemma theme_keys_exec:
  assumes "qmap_keys (dict st) = theme_keys"
  shows "qmap_keys (dict (exec env c st)) = theme_keys"
proof (cases c)
  case (GetStylesheet f bf)
  show ?thesis
  proof (cases "stylesheetsCache st (getThemeFolder env @ f, bf)")
    case None
    with assms show ?thesis
      unfolding GetStylesheet
      by (simp add: getStylesheet_miss resolve_dict theme_keys_not_empty)
  next
    case (Some s)
    with assms show ?thesis
      unfolding GetStylesheet by (simp add: getStylesheet_hit)
  qed
next
  case (Resolve f bf)
  with assms show ?thesis by (simp add: resolve_dict theme_keys_not_empty)
next
  case (SetThemeColorIndex i)
  from assms have "qmap_keys (dict (st\<lparr>stylesheetsCache := Map.empty\<rparr>)) = theme_keys"
    by simp
  then show ?thesis
    unfolding SetThemeColorIndex
    by (simp add: setThemeColor_index_def Let_def setThemeColor_keys_again)
next
  case (SetThemeColor c')
  with assms show ?thesis by (simp add: setThemeColor_keys_again)
qed (use assms in simp_all)

lemma theme_keys_run:
  "qmap_keys (dict st) = theme_keys \<Longrightarrow> qmap_keys (dict (run calls st)) = theme_keys"
proof (induction calls arbitrary: st)
  case Nil
  then show ?case by simp
next
  case (Cons ec calls)
  then show ?case by (cases ec) (simp add: theme_keys_exec)
qed

lemma substitute_tokens_theme_keys:
  "qmap_keys d = theme_keys \<Longrightarrow> substitute_tokens d qss = substitute_theme_only d qss"
  by (simp add: substitute_tokens_def substitute_theme_only_def theme_keys_def)

lemma resolve_text_theme_keys:
  assumes "qmap_keys (dict st) = theme_keys"
  shows "resolve_text env bf fp qss st =
     resolve_images env fp (substitute_theme_only (dict st) qss) st"
  using assms theme_keys_not_empty [OF assms]
  by (simp add: resolve_text_def Let_def substitute_tokens_theme_keys)

lemma no_resolve_exec:
  assumes "\<not> calls_resolve c"
    and "dict st = [] \<or> qmap_keys (dict st) = theme_keys"
  shows "dict (exec env c st) = [] \<or> qmap_keys (dict (exec env c st)) = theme_keys"
proof (cases c)
  case (SetThemeColorIndex i)
  from assms(2) have "dict (st\<lparr>stylesheetsCache := Map.empty\<rparr>) = [] \<or>
      qmap_keys (dict (st\<lparr>stylesheetsCache := Map.empty\<rparr>)) = theme_keys"
    by simp
  then have "qmap_keys (dict (setThemeColor_index env i st)) = theme_keys"
    unfolding setThemeColor_index_def Let_def
    by (auto simp: setThemeColor_keys_from_empty setThemeColor_keys_again)
  with SetThemeColorIndex show ?thesis by simp
next
  case (SetThemeColor c')
  from assms(2) have "qmap_keys (dict (setThemeColor env c' st)) = theme_keys"
    by (auto simp: setThemeColor_keys_from_empty setThemeColor_keys_again)
  with SetThemeColor show ?thesis by simp
qed (use assms in simp_all)

lemma no_resolve_run:
  assumes "\<forall>ec \<in> set calls. \<not> calls_resolve (snd ec)"
    and "dict st = [] \<or> qmap_keys (dict st) = theme_keys"
  shows "dict (run calls st) = [] \<or> qmap_keys (dict (run calls st)) = theme_keys"
  using assms
proof (induction calls arbitrary: st)
  case Nil
  then show ?case by simp
next
  case (Cons ec calls)
  obtain env c where ec: "ec = (env, c)" by (cases ec)
  with Cons.prems have "dict (exec env c st) = [] \<or> qmap_keys (dict (exec env c st)) = theme_keys"
    by (intro no_resolve_exec) simp_all
  with Cons ec show ?case by simp
qed

subsection \<open>The example\<close>

lemma example_folder: "getThemeFolder example_env = ''/themes/default/''"
  by (simp add: getThemeFolder_def example_env_def getThemeName_def ThemeSubFolder_def)

lemma example_folder_later: "getThemeFolder example_env_later = ''/themes/default/''"
  by (simp add: getThemeFolder_def example_env_later_def example_env_def getThemeName_def
      ThemeSubFolder_def)

lemma example_resolve_chat:
  "fst (resolve example_env ''chat.css'' example_font (initial_state example_env)) =
     ''color: #6bc260;''"
  by code_simp

lemma example_folder_deleted: "getThemeFolder example_env_deleted = ''/themes/default/''"
  by (simp add: getThemeFolder_def example_env_deleted_def example_env_def getThemeName_def
      ThemeSubFolder_def)

lemma example_deleted_cached:
  "existingImagesCache (snd (getImagePath example_env ''ok.svg'' (initial_state example_env))) =
     [''/themes/default/ok.svg'']"
proof -
  have "fileExists example_env ''/themes/default/ok.svg''"
    by (simp add: example_env_def example_files_def)
  then show ?thesis
    by (simp add: getImagePath_def Let_def example_folder initial_state_def)
qed

lemma example_substitute_mixed:
  "fst (resolve_images example_env ''/themes/default/mixed.css''
         (substitute_theme_only
            (dict (setThemeColor example_env (QColorRgb 0x00 0x4a 0xa4)
                     (run example_calls_before (initial_state example_env))))
            example_mixed)
         (setThemeColor example_env (QColorRgb 0x00 0x4a 0xa4)
            (run example_calls_before (initial_state example_env)))) =
     ''a { color: #002f6a; background: @green; font: @baseFont; border-color: #0051b5; }''"
  by code_simp

lemma example_resolve_late:
  "fst (resolve example_env ''late.css'' example_font (initial_state example_env)) = []"
  by code_simp

lemma example_resolve_late_later:
  "fst (resolve example_env_later ''late.css'' example_font
         (run example_calls
            (snd (getStylesheet example_env ''late.css'' example_font
                   (initial_state example_env))))) = ''color: #c84e4e;''"
  by code_simp

lemma example_plain_no_token: "\<forall>key \<in> set recognized_tokens. \<not> has_token key example_plain"
  by code_simp

lemma example_plain_no_image: "globalMatch example_plain = []"
  by code_simp

section \<open>The claims\<close>

text \<open>
  C1.  \<^verbatim>\<open>setThemeColor(int)\<close> empties the stylesheet cache (lemma
  \<open>setThemeColor_index_clears\<close>), but \<^verbatim>\<open>setThemeColor(const QColor&)\<close> leaves it as it
  is (lemma \<open>setThemeColor_fields\<close>).  In the example, \<^verbatim>\<open>theme.css\<close> is cached as
  \<^verbatim>\<open>color: #1c1c1c;\<close>; after \<^verbatim>\<open>setThemeColor(QColor("#004aa4"))\<close> the cache still
  holds the entry and \<^verbatim>\<open>getStylesheet\<close> returns the stale text, while \<^verbatim>\<open>resolve\<close>
  gives \<^verbatim>\<open>color: #002f6a;\<close>; after \<^verbatim>\<open>setThemeColor(1)\<close>, the same colour by index,
  \<^verbatim>\<open>getStylesheet\<close> returns the new text.
\<close>

theorem setThemeColor_color_keeps_cache:
  "fst (getStylesheet example_env ''theme.css'' example_font (initial_state example_env)) =
     ''color: #1c1c1c;'' \<and>
   stylesheetsCache
     (setThemeColor example_env (QColorRgb 0x00 0x4a 0xa4)
        (snd (getStylesheet example_env ''theme.css'' example_font (initial_state example_env))))
     (''/themes/default/theme.css'', example_font) = Some ''color: #1c1c1c;'' \<and>
   fst (getStylesheet example_env ''theme.css'' example_font
         (setThemeColor example_env (QColorRgb 0x00 0x4a 0xa4)
            (snd (getStylesheet example_env ''theme.css'' example_font
                   (initial_state example_env))))) = ''color: #1c1c1c;'' \<and>
   fst (resolve example_env ''theme.css'' example_font
         (setThemeColor example_env (QColorRgb 0x00 0x4a 0xa4)
            (snd (getStylesheet example_env ''theme.css'' example_font
                   (initial_state example_env))))) = ''color: #002f6a;'' \<and>
   fst (getStylesheet example_env ''theme.css'' example_font
         (setThemeColor_index example_env 1
            (snd (getStylesheet example_env ''theme.css'' example_font
                   (initial_state example_env))))) = ''color: #002f6a;''"
  by code_simp

text \<open>
  C2.  In the loop over the matches of \<^verbatim>\<open>@getImagePath(...)\<close>, \<^verbatim>\<open>resolve\<close> looks up
  \<open>fullPath\<close>, the path of the template, in the list of existing images, not the
  path of the image.  In the example, \<^verbatim>\<open>icons.css\<close> names \<^verbatim>\<open>ok.svg\<close>, which is in
  the theme folder, and \<^verbatim>\<open>m.png\<close>, which is nowhere.  From the initial state the
  missing image gets the built-in path; once the template's own path is in the list
  (after \<^verbatim>\<open>getImagePath("icons.css")\<close>), no existence check is made and the missing
  image gets the path under the theme folder.  And since the image's path is never
  looked up, resolving twice appends \<^verbatim>\<open>ok.svg\<close> to the list twice.
\<close>

theorem resolve_image_cache_lookup:
  "fst (resolve example_env ''icons.css'' example_font (initial_state example_env)) =
     ''a { image: url(/themes/default/ok.svg) } b { image: url(:themes/default/m.png) }'' \<and>
   existingImagesCache (snd (getImagePath example_env ''icons.css'' (initial_state example_env))) =
     [''/themes/default/icons.css''] \<and>
   \<not> fileExists example_env ''/themes/default/m.png'' \<and>
   fst (resolve example_env ''icons.css'' example_font
         (snd (getImagePath example_env ''icons.css'' (initial_state example_env)))) =
     ''a { image: url(/themes/default/ok.svg) } b { image: url(/themes/default/m.png) }'' \<and>
   existingImagesCache
     (snd (resolve example_env ''icons.css'' example_font
            (snd (resolve example_env ''icons.css'' example_font (initial_state example_env))))) =
     [''/themes/default/ok.svg'', ''/themes/default/ok.svg'']"
  by code_simp

text \<open>
  C3.  Let \<^verbatim>\<open>setThemeColor\<close> (either overload, any argument) be called before
  \<^verbatim>\<open>resolve\<close> has run in the process: after calls from the initial state none of
  which is \<^verbatim>\<open>resolve\<close> or \<^verbatim>\<open>getStylesheet\<close>.  Then the dictionary has the four
  accent keys and keeps exactly these through every later sequence of calls.  From
  then on \<^verbatim>\<open>resolve\<close> replaces \<^verbatim>\<open>@themeDark\<close>, \<^verbatim>\<open>@themeLight\<close>, \<^verbatim>\<open>@themeMedium\<close>
  and \<^verbatim>\<open>@themeMediumDark\<close> only; a template without these four and without
  \<^verbatim>\<open>@getImagePath(...)\<close> comes back as it was read, whatever other tokens it has.
\<close>

theorem accent_only_dictionary:
  assumes "\<forall>ec \<in> set before. \<not> calls_resolve (snd ec)"
    and "st1 = setThemeColor env1 c (run before (initial_state env0)) \<or>
         st1 = setThemeColor_index env1 i (run before (initial_state env0))"
    and "st2 = run calls st1"
    and "openReadText env (getThemeFolder env @ f) = Some qss"
  shows "qmap_keys (dict st2) = theme_keys \<and>
     resolve env f bf st2 =
       resolve_images env (getThemeFolder env @ f) (substitute_theme_only (dict st2) qss) st2 \<and>
     ((\<forall>key \<in> set theme_keys. \<not> has_token key qss) \<and> globalMatch qss = [] \<longrightarrow>
        resolve env f bf st2 = (qss, st2))"
proof -
  define st where "st = run before (initial_state env0)"
  have "dict (initial_state env0) = []"
    by (simp add: initial_state_def)
  with assms(1) have before: "dict st = [] \<or> qmap_keys (dict st) = theme_keys"
    unfolding st_def by (intro no_resolve_run) simp_all
  have "qmap_keys (dict st1) = theme_keys"
  proof -
    from before have "qmap_keys (dict (setThemeColor env1 c st)) = theme_keys"
      by (auto simp: setThemeColor_keys_from_empty setThemeColor_keys_again)
    moreover
    from before have "dict (st\<lparr>stylesheetsCache := Map.empty\<rparr>) = [] \<or>
        qmap_keys (dict (st\<lparr>stylesheetsCache := Map.empty\<rparr>)) = theme_keys"
      by simp
    then have "qmap_keys (dict (setThemeColor_index env1 i st)) = theme_keys"
      unfolding setThemeColor_index_def Let_def
      by (auto simp: setThemeColor_keys_from_empty setThemeColor_keys_again)
    ultimately show ?thesis
      using assms(2) unfolding st_def by auto
  qed
  then have keys: "qmap_keys (dict st2) = theme_keys"
    unfolding assms(3) by (rule theme_keys_run)
  have res: "resolve env f bf st2 =
       resolve_images env (getThemeFolder env @ f) (substitute_theme_only (dict st2) qss) st2"
    using assms(4) by (simp add: resolve_def Let_def resolve_text_theme_keys [OF keys])
  have same: "resolve env f bf st2 = (qss, st2)"
    if "\<forall>key \<in> set theme_keys. \<not> has_token key qss" and "globalMatch qss = []"
  proof -
    from that(1) keys have "substitute_tokens (dict st2) qss = qss"
      by (intro substitute_tokens_no_match) simp
    with keys have "substitute_theme_only (dict st2) qss = qss"
      by (simp add: substitute_tokens_theme_keys)
    with res that(2) show ?thesis
      by (simp add: resolve_images_no_match)
  qed
  from keys res same show ?thesis by blast
qed

text \<open>
  In the example, \<^verbatim>\<open>chat.css\<close> resolves to \<^verbatim>\<open>color: #6bc260;\<close> when no colour was set
  before the first \<^verbatim>\<open>resolve\<close>, and stays \<^verbatim>\<open>color: @green;\<close> when one was; in
  \<^verbatim>\<open>mixed.css\<close> the accent tokens are then replaced and \<^verbatim>\<open>@green\<close> and
  \<^verbatim>\<open>@baseFont\<close> are left.
\<close>

theorem accent_only_dictionary_witness:
  "openReadText example_env (getThemeFolder example_env @ ''chat.css'') = Some ''color: @green;'' \<and>
   globalMatch ''color: @green;'' = [] \<and>
   fst (resolve example_env ''chat.css'' example_font (initial_state example_env)) =
     ''color: #6bc260;'' \<and>
   fst (resolve example_env ''chat.css'' example_font
         (run example_calls_after
            (setThemeColor example_env (QColorRgb 0x00 0x4a 0xa4)
               (run example_calls_before (initial_state example_env))))) =
     ''color: @green;'' \<and>
   fst (resolve example_env ''chat.css'' example_font
         (run example_calls_after
            (setThemeColor_index example_env 1
               (run example_calls_before (initial_state example_env))))) =
     ''color: @green;'' \<and>
   qmap_keys
     (dict (setThemeColor example_env (QColorRgb 0x00 0x4a 0xa4)
              (run example_calls_before (initial_state example_env)))) =
     [''@themeDark'', ''@themeLight'', ''@themeMedium'', ''@themeMediumDark''] \<and>
   fst (resolve example_env ''mixed.css'' example_font
         (setThemeColor example_env (QColorRgb 0x00 0x4a 0xa4)
            (run example_calls_before (initial_state example_env)))) =
     ''a { color: #002f6a; background: @green; font: @baseFont; border-color: #0051b5; }''"
proof -
  have before: "\<forall>ec \<in> set example_calls_before. \<not> calls_resolve (snd ec)"
    by (simp add: example_calls_before_def)
  have opens:
    "openReadText example_env (getThemeFolder example_env @ ''chat.css'') = Some ''color: @green;''"
    unfolding example_folder by (simp add: example_env_def example_files_def)
  have no_token: "\<forall>key \<in> set theme_keys. \<not> has_token key ''color: @green;''"
    by code_simp
  have no_image: "globalMatch ''color: @green;'' = []"
    by code_simp
  note t = accent_only_dictionary [OF before _ refl opens, of _ example_env
      "QColorRgb 0x00 0x4a 0xa4" example_env 1 example_calls_after example_font]
  from t [OF disjI1, OF refl] no_token no_image have
    "resolve example_env ''chat.css'' example_font
       (run example_calls_after
          (setThemeColor example_env (QColorRgb 0x00 0x4a 0xa4)
             (run example_calls_before (initial_state example_env)))) =
     (''color: @green;'',
      run example_calls_after
        (setThemeColor example_env (QColorRgb 0x00 0x4a 0xa4)
           (run example_calls_before (initial_state example_env))))"
    by blast
  then have color:
    "fst (resolve example_env ''chat.css'' example_font
         (run example_calls_after
            (setThemeColor example_env (QColorRgb 0x00 0x4a 0xa4)
               (run example_calls_before (initial_state example_env))))) =
     ''color: @green;''"
    by (simp only: fst_conv)
  from t [OF disjI2, OF refl] no_token no_image have
    "resolve example_env ''chat.css'' example_font
       (run example_calls_after
          (setThemeColor_index example_env 1
             (run example_calls_before (initial_state example_env)))) =
     (''color: @green;'',
      run example_calls_after
        (setThemeColor_index example_env 1
           (run example_calls_before (initial_state example_env))))"
    by blast
  then have index:
    "fst (resolve example_env ''chat.css'' example_font
         (run example_calls_after
            (setThemeColor_index example_env 1
               (run example_calls_before (initial_state example_env))))) =
     ''color: @green;''"
    by (simp only: fst_conv)
  have opens_mixed:
    "openReadText example_env (getThemeFolder example_env @ ''mixed.css'') = Some example_mixed"
    unfolding example_folder
    by (simp add: example_env_def example_files_def example_mixed_def)
  note t_mixed = accent_only_dictionary [OF before disjI1 refl opens_mixed,
      where calls = "[]" and bf = example_font, OF refl]
  from t_mixed have keys:
    "qmap_keys
       (dict (run [] (setThemeColor example_env (QColorRgb 0x00 0x4a 0xa4)
                (run example_calls_before (initial_state example_env))))) = theme_keys"
    by blast
  from t_mixed have
    "resolve example_env ''mixed.css'' example_font
       (run [] (setThemeColor example_env (QColorRgb 0x00 0x4a 0xa4)
                  (run example_calls_before (initial_state example_env)))) =
     resolve_images example_env (getThemeFolder example_env @ ''mixed.css'')
       (substitute_theme_only
          (dict (run [] (setThemeColor example_env (QColorRgb 0x00 0x4a 0xa4)
                   (run example_calls_before (initial_state example_env)))))
          example_mixed)
       (run [] (setThemeColor example_env (QColorRgb 0x00 0x4a 0xa4)
                  (run example_calls_before (initial_state example_env))))"
    by blast
  then have mixed:
    "fst (resolve example_env ''mixed.css'' example_font
         (setThemeColor example_env (QColorRgb 0x00 0x4a 0xa4)
            (run example_calls_before (initial_state example_env)))) =
     ''a { color: #002f6a; background: @green; font: @baseFont; border-color: #0051b5; }''"
    by (simp add: example_folder example_substitute_mixed)
  from keys have keys':
    "qmap_keys
       (dict (setThemeColor example_env (QColorRgb 0x00 0x4a 0xa4)
                (run example_calls_before (initial_state example_env)))) =
     [''@themeDark'', ''@themeLight'', ''@themeMedium'', ''@themeMediumDark'']"
    by (simp add: theme_keys_def)
  from opens no_image example_resolve_chat color index keys' mixed
  show ?thesis by blast
qed

text \<open>
  C4.  When \<^verbatim>\<open>resolve\<close> cannot open the template under the theme folder, it logs a
  warning and opens the built-in theme path itself, \<^verbatim>\<open>:themes/default/\<close>, not the
  file of the same name under it.  If that fails too, it logs a second warning and
  returns the empty string; it always returns a string.  If it succeeds, the text read
  there is resolved.
\<close>

theorem resolve_open_failure:
  assumes "openReadText env (getThemeFolder env @ filename) = None"
  shows "resolve env filename baseFont st =
     (case openReadText env BuiltinThemePath of
        None \<Rightarrow>
          ([], st\<lparr>warnings := warnings st @
                  [FailedToOpenFile (getThemeFolder env @ filename),
                   FailedToOpenDefaultFile BuiltinThemePath]\<rparr>)
      | Some qss \<Rightarrow>
          resolve_text env baseFont BuiltinThemePath qss
            (warn (FailedToOpenFile (getThemeFolder env @ filename)) st))"
  using assms by (simp add: resolve_def Let_def warn_def split: option.splits)

text \<open>
  In the example, \<^verbatim>\<open>missing.css\<close> is in neither theme: \<^verbatim>\<open>resolve\<close> returns the
  empty string and logs two warnings.  \<^verbatim>\<open>late.css\<close> is in the built-in theme only,
  and \<^verbatim>\<open>resolve\<close> returns the empty string all the same.
\<close>

theorem resolve_open_failure_witness:
  "openReadText example_env (getThemeFolder example_env @ ''missing.css'') = None \<and>
   openReadText example_env (BuiltinThemePath @ ''missing.css'') = None \<and>
   resolve example_env ''missing.css'' example_font (initial_state example_env) =
     ([], (initial_state example_env)
            \<lparr>warnings := [FailedToOpenFile ''/themes/default/missing.css'',
                          FailedToOpenDefaultFile '':themes/default/'']\<rparr>) \<and>
   openReadText example_env (BuiltinThemePath @ ''late.css'') = Some ''color: @red;'' \<and>
   fst (resolve example_env ''late.css'' example_font (initial_state example_env)) = []"
proof -
  have folder: "getThemeFolder example_env = ''/themes/default/''"
    by (simp add: getThemeFolder_def example_env_def getThemeName_def ThemeSubFolder_def)
  have missing: "openReadText example_env (getThemeFolder example_env @ ''missing.css'') = None"
    unfolding folder by (simp add: example_env_def example_files_def)
  have late: "openReadText example_env (getThemeFolder example_env @ ''late.css'') = None"
    unfolding folder by (simp add: example_env_def example_files_def)
  have builtin: "openReadText example_env BuiltinThemePath = None"
    by (simp add: example_env_def example_files_def BuiltinThemePath_def)
  show ?thesis
    using resolve_open_failure [OF missing, of example_font "initial_state example_env"]
      resolve_open_failure [OF late, of example_font "initial_state example_env"]
      missing builtin folder
    by (simp add: initial_state_def)
      (simp add: example_env_def example_files_def BuiltinThemePath_def)
qed

text \<open>
  C5.  \<^verbatim>\<open>getImagePath\<close> returns the path under the theme folder, and changes nothing,
  when that path is already in the list of existing images: no check is made.  When
  the file exists under the theme folder, it returns that path, and the path is in the
  list afterwards (appended unless it was there).  When the path is not in the list
  and the file exists under the built-in theme only, it returns the built-in path and
  leaves the list as it is, logging one warning; when the path is not in the list and
  the file exists in neither place, it returns the empty string and leaves the list as
  it is, logging two warnings.  In a state whose list is sound for the environment (every
  path in it exists; calls made while the files stay as they are keep it so, lemma
  \<open>images_exist_run\<close>), the path of a file that does not exist is not in the list.
\<close>

theorem getImagePath_cases:
  "(getThemeFolder env @ f \<in> set (existingImagesCache st) \<longrightarrow>
      getImagePath env f st = (getThemeFolder env @ f, st)) \<and>
   (fileExists env (getThemeFolder env @ f) \<longrightarrow>
      fst (getImagePath env f st) = getThemeFolder env @ f \<and>
      existingImagesCache (snd (getImagePath env f st)) =
        (if getThemeFolder env @ f \<in> set (existingImagesCache st) then existingImagesCache st
         else existingImagesCache st @ [getThemeFolder env @ f]) \<and>
      getThemeFolder env @ f \<in> set (existingImagesCache (snd (getImagePath env f st))) \<and>
      warnings (snd (getImagePath env f st)) = warnings st) \<and>
   (getThemeFolder env @ f \<notin> set (existingImagesCache st) \<and>
    \<not> fileExists env (getThemeFolder env @ f) \<and> fileExists env (BuiltinThemePath @ f) \<longrightarrow>
      fst (getImagePath env f st) = BuiltinThemePath @ f \<and>
      existingImagesCache (snd (getImagePath env f st)) = existingImagesCache st \<and>
      warnings (snd (getImagePath env f st)) =
        warnings st @ [FailedToOpenFile (getThemeFolder env @ f)]) \<and>
   (getThemeFolder env @ f \<notin> set (existingImagesCache st) \<and>
    \<not> fileExists env (getThemeFolder env @ f) \<and> \<not> fileExists env (BuiltinThemePath @ f) \<longrightarrow>
      fst (getImagePath env f st) = [] \<and>
      existingImagesCache (snd (getImagePath env f st)) = existingImagesCache st \<and>
      warnings (snd (getImagePath env f st)) =
        warnings st @ [FailedToOpenFile (getThemeFolder env @ f),
                       FailedToOpenDefaultFile (BuiltinThemePath @ f)]) \<and>
   (images_exist env st \<and> \<not> fileExists env (getThemeFolder env @ f) \<longrightarrow>
      getThemeFolder env @ f \<notin> set (existingImagesCache st))"
proof (cases "getThemeFolder env @ f \<in> set (existingImagesCache st)")
  case True
  then show ?thesis
    by (auto simp: getImagePath_def Let_def dest: images_exist_miss)
next
  case False
  then show ?thesis
    by (cases "fileExists env (getThemeFolder env @ f)") (simp_all add: getImagePath_def Let_def)
qed

theorem getImagePath_cases_witness:
  "getImagePath example_env ''ok.svg'' (initial_state example_env) =
     (''/themes/default/ok.svg'',
      (initial_state example_env)\<lparr>existingImagesCache := [''/themes/default/ok.svg'']\<rparr>) \<and>
   fst (getImagePath example_env ''b.png'' (initial_state example_env)) =
     '':themes/default/b.png'' \<and>
   existingImagesCache (snd (getImagePath example_env ''b.png'' (initial_state example_env))) = [] \<and>
   fst (getImagePath example_env ''m.png'' (initial_state example_env)) = [] \<and>
   existingImagesCache (snd (getImagePath example_env ''m.png'' (initial_state example_env))) = [] \<and>
   warnings (snd (getImagePath example_env ''m.png'' (initial_state example_env))) =
     [FailedToOpenFile ''/themes/default/m.png'', FailedToOpenDefaultFile '':themes/default/m.png''] \<and>
   getImagePath example_env_deleted ''ok.svg''
     (snd (getImagePath example_env ''ok.svg'' (initial_state example_env))) =
     (''/themes/default/ok.svg'',
      snd (getImagePath example_env ''ok.svg'' (initial_state example_env)))"
proof -
  have files:
    "fileExists example_env (getThemeFolder example_env @ ''ok.svg'')"
    "\<not> fileExists example_env (getThemeFolder example_env @ ''b.png'')"
    "fileExists example_env (BuiltinThemePath @ ''b.png'')"
    "\<not> fileExists example_env (getThemeFolder example_env @ ''m.png'')"
    "\<not> fileExists example_env (BuiltinThemePath @ ''m.png'')"
    unfolding example_folder
    by (simp_all add: example_env_def example_files_def BuiltinThemePath_def)
  have empty: "existingImagesCache (initial_state example_env) = []"
    "warnings (initial_state example_env) = []"
    by (simp_all add: initial_state_def)
  have miss: "getThemeFolder example_env @ f \<notin> set (existingImagesCache (initial_state example_env))"
    for f
    by (simp add: empty)
  have ok: "getImagePath example_env ''ok.svg'' (initial_state example_env) =
     (''/themes/default/ok.svg'',
      (initial_state example_env)\<lparr>existingImagesCache := [''/themes/default/ok.svg'']\<rparr>)"
    using files(1) by (simp add: getImagePath_def Let_def example_folder empty)
  have b: "fst (getImagePath example_env ''b.png'' (initial_state example_env)) =
      BuiltinThemePath @ ''b.png'' \<and>
    existingImagesCache (snd (getImagePath example_env ''b.png'' (initial_state example_env))) =
      existingImagesCache (initial_state example_env)"
    using getImagePath_cases [of example_env "''b.png''" "initial_state example_env"]
      files(2,3) miss [of "''b.png''"]
    by blast
  have m: "fst (getImagePath example_env ''m.png'' (initial_state example_env)) = [] \<and>
    existingImagesCache (snd (getImagePath example_env ''m.png'' (initial_state example_env))) =
      existingImagesCache (initial_state example_env) \<and>
    warnings (snd (getImagePath example_env ''m.png'' (initial_state example_env))) =
      warnings (initial_state example_env) @
      [FailedToOpenFile (getThemeFolder example_env @ ''m.png''),
       FailedToOpenDefaultFile (BuiltinThemePath @ ''m.png'')]"
    using getImagePath_cases [of example_env "''m.png''" "initial_state example_env"]
      files(4,5) miss [of "''m.png''"]
    by blast
  have cached: "getThemeFolder example_env_deleted @ ''ok.svg'' \<in>
      set (existingImagesCache (snd (getImagePath example_env ''ok.svg'' (initial_state example_env))))"
    by (simp add: example_folder_deleted example_deleted_cached)
  have stale: "getImagePath example_env_deleted ''ok.svg''
     (snd (getImagePath example_env ''ok.svg'' (initial_state example_env))) =
     (getThemeFolder example_env_deleted @ ''ok.svg'',
      snd (getImagePath example_env ''ok.svg'' (initial_state example_env)))"
    using getImagePath_cases [of example_env_deleted "''ok.svg''"
        "snd (getImagePath example_env ''ok.svg'' (initial_state example_env))"] cached
    by blast
  from ok b m stale show ?thesis
    unfolding empty example_folder example_folder_deleted
    by (simp add: BuiltinThemePath_def)
qed

text \<open>
  Without the condition on the list the statement fails: after \<^verbatim>\<open>ok.svg\<close> was found
  under the theme folder and then deleted, it exists in neither place, and
  \<^verbatim>\<open>getImagePath\<close> still returns its path under the theme folder, from the list.
\<close>

theorem getImagePath_stale_cache_counterexample:
  "\<not> fileExists example_env_deleted (getThemeFolder example_env_deleted @ ''ok.svg'') \<and>
   \<not> fileExists example_env_deleted (BuiltinThemePath @ ''ok.svg'') \<and>
   fst (getImagePath example_env_deleted ''ok.svg''
         (snd (getImagePath example_env ''ok.svg'' (initial_state example_env)))) =
     ''/themes/default/ok.svg'' \<and>
   fst (getImagePath example_env_deleted ''ok.svg''
         (snd (getImagePath example_env ''ok.svg'' (initial_state example_env)))) \<noteq> []"
proof -
  have gone: "\<not> fileExists example_env_deleted (getThemeFolder example_env_deleted @ ''ok.svg'')"
    unfolding example_folder_deleted by (simp add: example_env_deleted_def)
  have builtin: "\<not> fileExists example_env_deleted (BuiltinThemePath @ ''ok.svg'')"
    by (simp add: example_env_deleted_def example_env_def example_files_def BuiltinThemePath_def)
  have "fst (getImagePath example_env_deleted ''ok.svg''
         (snd (getImagePath example_env ''ok.svg'' (initial_state example_env)))) =
     ''/themes/default/ok.svg''"
    by (simp add: getImagePath_def [of example_env_deleted] Let_def example_folder_deleted
        example_deleted_cached)
  with gone builtin show ?thesis by simp
qed

text \<open>
  C6.  \<^verbatim>\<open>setThemeColor\<close> with the invalid colour sets the four accent slots of the
  palette to \<^verbatim>\<open>#1c1c1c\<close>, \<^verbatim>\<open>#2a2a2a\<close>, \<^verbatim>\<open>#414141\<close> and \<^verbatim>\<open>#4e4e4e\<close>, whatever the
  state was, and the four entries of the dictionary to these names.
  \<^verbatim>\<open>setThemeColor(int)\<close> with a negative index, or one that is not below the number of
  preset colours, does what \<^verbatim>\<open>setThemeColor\<close> with the invalid colour does (and, as
  for every index, empties the stylesheet cache); it raises no error.
\<close>

theorem setThemeColor_invalid_resets:
  "palette (setThemeColor env QColorInvalid st) ThemeDark = QColorRgb 0x1c 0x1c 0x1c \<and>
   palette (setThemeColor env QColorInvalid st) ThemeMediumDark = QColorRgb 0x2a 0x2a 0x2a \<and>
   palette (setThemeColor env QColorInvalid st) ThemeMedium = QColorRgb 0x41 0x41 0x41 \<and>
   palette (setThemeColor env QColorInvalid st) ThemeLight = QColorRgb 0x4e 0x4e 0x4e \<and>
   qmap_value (dict (setThemeColor env QColorInvalid st)) ''@themeDark'' = ''#1c1c1c'' \<and>
   qmap_value (dict (setThemeColor env QColorInvalid st)) ''@themeMediumDark'' = ''#2a2a2a'' \<and>
   qmap_value (dict (setThemeColor env QColorInvalid st)) ''@themeMedium'' = ''#414141'' \<and>
   qmap_value (dict (setThemeColor env QColorInvalid st)) ''@themeLight'' = ''#4e4e4e'' \<and>
   (i < 0 \<or> i \<ge> int (length themeColorColors) \<longrightarrow>
      setThemeColor_index env i st =
        (setThemeColor env QColorInvalid st)\<lparr>stylesheetsCache := Map.empty\<rparr>)"
proof -
  have pal:
    "palette (setThemeColor env QColorInvalid st) ThemeDark = color_1c1c1c"
    "palette (setThemeColor env QColorInvalid st) ThemeMediumDark = color_2a2a2a"
    "palette (setThemeColor env QColorInvalid st) ThemeMedium = color_414141"
    "palette (setThemeColor env QColorInvalid st) ThemeLight = color_4e4e4e"
    by (simp_all add: setThemeColor_palette)
  have names:
    "qmap_value (dict (setThemeColor env QColorInvalid st)) ''@themeDark'' = ''#1c1c1c''"
    "qmap_value (dict (setThemeColor env QColorInvalid st)) ''@themeMediumDark'' = ''#2a2a2a''"
    "qmap_value (dict (setThemeColor env QColorInvalid st)) ''@themeMedium'' = ''#414141''"
    "qmap_value (dict (setThemeColor env QColorInvalid st)) ''@themeLight'' = ''#4e4e4e''"
    unfolding qmap_value_def setThemeColor_dict pal default_color_names by simp_all
  have index: "i < 0 \<or> i \<ge> int (length themeColorColors) \<longrightarrow>
      setThemeColor_index env i st =
        (setThemeColor env QColorInvalid st)\<lparr>stylesheetsCache := Map.empty\<rparr>"
    by (auto simp: setThemeColor_index_def Let_def setThemeColor_clear_commute)
  from pal names index show ?thesis
    by (simp add: color_1c1c1c_def color_2a2a2a_def color_414141_def color_4e4e4e_def)
qed

theorem setThemeColor_invalid_resets_witness:
  "(7 :: int) \<ge> int (length themeColorColors) \<and>
   setThemeColor_index example_env 7
     (setThemeColor example_env (QColorRgb 0x00 0x4a 0xa4) (initial_state example_env)) =
   (setThemeColor example_env QColorInvalid
     (setThemeColor example_env (QColorRgb 0x00 0x4a 0xa4) (initial_state example_env)))
     \<lparr>stylesheetsCache := Map.empty\<rparr> \<and>
   palette (setThemeColor example_env (QColorRgb 0x00 0x4a 0xa4) (initial_state example_env))
     ThemeDark = QColorRgb 0x00 0x2f 0x6a \<and>
   palette (setThemeColor_index example_env 7
     (setThemeColor example_env (QColorRgb 0x00 0x4a 0xa4) (initial_state example_env)))
     ThemeDark = QColorRgb 0x1c 0x1c 0x1c \<and>
   palette (setThemeColor_index example_env (- 1)
     (setThemeColor example_env (QColorRgb 0x00 0x4a 0xa4) (initial_state example_env)))
     ThemeLight = QColorRgb 0x4e 0x4e 0x4e"
proof -
  define st where
    "st = setThemeColor example_env (QColorRgb 0x00 0x4a 0xa4) (initial_state example_env)"
  have len: "(7 :: int) \<ge> int (length themeColorColors)"
    by (simp add: themeColorColors_def)
  have neg: "(- 1 :: int) < 0" by simp
  have before: "palette st ThemeDark = QColorRgb 0x00 0x2f 0x6a"
    by (simp add: st_def setThemeColor_palette example_env_def example_scale_def)
  from setThemeColor_invalid_resets [of example_env st 7] len
    setThemeColor_invalid_resets [of example_env st "- 1"] neg before
  show ?thesis
    unfolding st_def [symmetric] by simp
qed

text \<open>
  C7.  For a valid colour \<open>c\<close>, \<^verbatim>\<open>setThemeColor(c)\<close> sets the accent slots to
  \<open>c\<close> darkened by 155, by 135 and by 120 and to \<open>c\<close> lightened by 110, and the four
  entries of the dictionary to the names of these colours.  The four colours depend on
  \<open>c\<close> only, not on the state: a second call with the same colour, or a call in any
  other state, gives the same palette slots.
\<close>

theorem setThemeColor_valid_derives:
  assumes "isValid c"
  shows
    "palette (setThemeColor env c st) ThemeDark = darker env c 155 \<and>
     palette (setThemeColor env c st) ThemeMediumDark = darker env c 135 \<and>
     palette (setThemeColor env c st) ThemeMedium = darker env c 120 \<and>
     palette (setThemeColor env c st) ThemeLight = lighter env c 110 \<and>
     qmap_value (dict (setThemeColor env c st)) ''@themeDark'' = color_name (darker env c 155) \<and>
     qmap_value (dict (setThemeColor env c st)) ''@themeMediumDark'' =
       color_name (darker env c 135) \<and>
     qmap_value (dict (setThemeColor env c st)) ''@themeMedium'' = color_name (darker env c 120) \<and>
     qmap_value (dict (setThemeColor env c st)) ''@themeLight'' = color_name (lighter env c 110) \<and>
     palette (setThemeColor env c (setThemeColor env c st)) = palette (setThemeColor env c st) \<and>
     (\<forall>entry \<in> {ThemeDark, ThemeMediumDark, ThemeMedium, ThemeLight}.
        palette (setThemeColor env c st') entry = palette (setThemeColor env c st) entry)"
proof -
  have pal:
    "palette (setThemeColor env c st) ThemeDark = darker env c 155"
    "palette (setThemeColor env c st) ThemeMediumDark = darker env c 135"
    "palette (setThemeColor env c st) ThemeMedium = darker env c 120"
    "palette (setThemeColor env c st) ThemeLight = lighter env c 110"
    using assms by (simp_all add: setThemeColor_palette)
  have names:
    "qmap_value (dict (setThemeColor env c st)) ''@themeDark'' = color_name (darker env c 155)"
    "qmap_value (dict (setThemeColor env c st)) ''@themeMediumDark'' =
       color_name (darker env c 135)"
    "qmap_value (dict (setThemeColor env c st)) ''@themeMedium'' = color_name (darker env c 120)"
    "qmap_value (dict (setThemeColor env c st)) ''@themeLight'' = color_name (lighter env c 110)"
    unfolding qmap_value_def setThemeColor_dict pal by simp_all
  have again:
    "palette (setThemeColor env c (setThemeColor env c st)) = palette (setThemeColor env c st)"
    using assms by (simp add: setThemeColor_palette)
  have other: "\<forall>entry \<in> {ThemeDark, ThemeMediumDark, ThemeMedium, ThemeLight}.
        palette (setThemeColor env c st') entry = palette (setThemeColor env c st) entry"
    using assms by (simp add: setThemeColor_palette)
  from pal names again other show ?thesis by simp
qed

theorem setThemeColor_valid_derives_witness:
  "isValid (QColorRgb 0x00 0x4a 0xa4) \<and>
   palette (setThemeColor example_env (QColorRgb 0x00 0x4a 0xa4) (initial_state example_env))
     ThemeDark = QColorRgb 0x00 0x2f 0x6a \<and>
   palette (setThemeColor example_env (QColorRgb 0x00 0x4a 0xa4) (initial_state example_env))
     ThemeLight = QColorRgb 0x00 0x51 0xb5 \<and>
   qmap_value
     (dict (setThemeColor example_env (QColorRgb 0x00 0x4a 0xa4) (initial_state example_env)))
     ''@themeMedium'' = ''#003d89''"
proof -
  have valid: "isValid (QColorRgb 0x00 0x4a 0xa4)" by simp
  have d: "darker example_env (QColorRgb 0x00 0x4a 0xa4) 155 = QColorRgb 0x00 0x2f 0x6a"
    "darker example_env (QColorRgb 0x00 0x4a 0xa4) 120 = QColorRgb 0x00 0x3d 0x89"
    "lighter example_env (QColorRgb 0x00 0x4a 0xa4) 110 = QColorRgb 0x00 0x51 0xb5"
    by (simp_all add: example_env_def example_scale_def)
  have n: "color_name (QColorRgb 0x00 0x3d 0x89) = ''#003d89''"
    by (simp add: hex_byte_def hex_digit_def)
  from setThemeColor_valid_derives [OF valid, of example_env "initial_state example_env"] d n
  show ?thesis by simp
qed

text \<open>
  C8.  Two consecutive calls of \<^verbatim>\<open>getStylesheet\<close> with the same file name and font
  return the same text, and the second call leaves the state as it is: it is answered
  from the cache, whatever the files are by then, without a call of \<^verbatim>\<open>resolve\<close>.  On
  a miss, \<^verbatim>\<open>getStylesheet\<close> returns what \<^verbatim>\<open>resolve\<close> returns and stores it under the
  key (full path, font).
\<close>

theorem getStylesheet_twice:
  "(getStylesheet env f bf st = (s, st') \<and> getThemeFolder env2 = getThemeFolder env \<longrightarrow>
      getStylesheet env2 f bf st' = (s, st')) \<and>
   (stylesheetsCache st (getThemeFolder env @ f, bf) = None \<longrightarrow>
      fst (getStylesheet env f bf st) = fst (resolve env f bf st) \<and>
      snd (getStylesheet env f bf st) =
        (snd (resolve env f bf st))
          \<lparr>stylesheetsCache :=
             (stylesheetsCache st)((getThemeFolder env @ f, bf) \<mapsto> fst (resolve env f bf st))\<rparr>)"
proof (intro conjI impI)
  assume a: "getStylesheet env f bf st = (s, st') \<and> getThemeFolder env2 = getThemeFolder env"
  then have "stylesheetsCache st' (getThemeFolder env2 @ f, bf) = Some s"
    using getStylesheet_stores [of env f bf st] by simp
  then show "getStylesheet env2 f bf st' = (s, st')"
    by (rule getStylesheet_hit)
next
  assume "stylesheetsCache st (getThemeFolder env @ f, bf) = None"
  then show "fst (getStylesheet env f bf st) = fst (resolve env f bf st)"
    and "snd (getStylesheet env f bf st) =
        (snd (resolve env f bf st))
          \<lparr>stylesheetsCache :=
             (stylesheetsCache st)((getThemeFolder env @ f, bf) \<mapsto> fst (resolve env f bf st))\<rparr>"
    by (simp_all add: getStylesheet_miss)
qed

theorem getStylesheet_twice_witness:
  "stylesheetsCache (initial_state example_env)
     (getThemeFolder example_env @ ''chat.css'', example_font) = None \<and>
   fst (getStylesheet example_env ''chat.css'' example_font (initial_state example_env)) =
     ''color: #6bc260;'' \<and>
   getStylesheet example_env_later ''chat.css'' example_font
     (snd (getStylesheet example_env ''chat.css'' example_font (initial_state example_env))) =
   getStylesheet example_env ''chat.css'' example_font (initial_state example_env)"
proof -
  have miss: "stylesheetsCache (initial_state example_env)
     (getThemeFolder example_env @ ''chat.css'', example_font) = None"
    by (simp add: initial_state_def)
  obtain s st' where r:
    "getStylesheet example_env ''chat.css'' example_font (initial_state example_env) = (s, st')"
    by (cases "getStylesheet example_env ''chat.css'' example_font (initial_state example_env)")
  have same: "getThemeFolder example_env_later = getThemeFolder example_env"
    by (simp add: example_folder example_folder_later)
  note t = getStylesheet_twice [of example_env "''chat.css''" example_font
      "initial_state example_env" s st' example_env_later]
  from t r same have again:
    "getStylesheet example_env_later ''chat.css'' example_font st' = (s, st')"
    by blast
  from t miss have
    "fst (getStylesheet example_env ''chat.css'' example_font (initial_state example_env)) =
     fst (resolve example_env ''chat.css'' example_font (initial_state example_env))"
    by blast
  with miss again r example_resolve_chat show ?thesis by simp
qed

text \<open>
  C9.  In every state the program can reach, \<^verbatim>\<open>resolve\<close> returns the text of a
  template as it was read when the text has no match of a recognised token (one of
  the 22 keys followed by a word boundary) and no match of \<^verbatim>\<open>@getImagePath(...)\<close>.
\<close>

theorem resolve_identity:
  assumes "st = run calls (initial_state env0)"
    and "\<forall>key \<in> set recognized_tokens. \<not> has_token key qss"
    and "globalMatch qss = []"
    and "openReadText env (getThemeFolder env @ f) = Some qss \<or>
         openReadText env (getThemeFolder env @ f) = None \<and>
         openReadText env BuiltinThemePath = Some qss"
  shows "fst (resolve env f bf st) = qss"
proof -
  have rec: "dict_recognized st"
    unfolding assms(1) by (intro dict_recognized_run dict_recognized_initial)
  then have rec': "dict_recognized (warn w st)" for w
    by (simp add: dict_recognized_def)
  from assms(4) show ?thesis
    by (auto simp: resolve_def Let_def resolve_text_no_match [OF rec assms(2,3)]
        resolve_text_no_match [OF rec' assms(2,3)])
qed

theorem resolve_identity_witness:
  "globalMatch example_plain = [] \<and>
   openReadText example_env (getThemeFolder example_env @ ''plain.css'') = Some example_plain \<and>
   fst (resolve example_env ''plain.css'' example_font
         (run [(example_env, Resolve ''chat.css'' example_font),
               (example_env, SetThemeColorIndex 2)] (initial_state example_env))) =
     example_plain"
proof -
  have opens:
    "openReadText example_env (getThemeFolder example_env @ ''plain.css'') = Some example_plain"
    unfolding example_folder by (simp add: example_env_def example_files_def example_plain_def)
  from resolve_identity [OF refl example_plain_no_token example_plain_no_image disjI1, OF opens]
    example_plain_no_image opens
  show ?thesis by blast
qed

text \<open>
  C10.  On a miss \<^verbatim>\<open>getStylesheet\<close> returns what \<^verbatim>\<open>resolve\<close> returns and stores it in
  the cache under the key (full path, font); when neither the template nor the
  built-in path can be opened, what it returns and stores is the empty string.  After
  any call the cache holds the returned text under the key.  An entry of the cache
  stays as it is through every sequence of calls that has no \<^verbatim>\<open>setThemeColor(int)\<close>,
  in whatever environments they are made, and \<^verbatim>\<open>getStylesheet\<close> with that key returns
  it and changes nothing.  \<^verbatim>\<open>setThemeColor(int)\<close> empties the cache.
\<close>

theorem cache_entry_persists:
  "(stylesheetsCache st (getThemeFolder env @ f, bf) = None \<longrightarrow>
      fst (getStylesheet env f bf st) = fst (resolve env f bf st) \<and>
      stylesheetsCache (snd (getStylesheet env f bf st)) (getThemeFolder env @ f, bf) =
        Some (fst (resolve env f bf st))) \<and>
   (stylesheetsCache st (getThemeFolder env @ f, bf) = None \<and>
    openReadText env (getThemeFolder env @ f) = None \<and>
    openReadText env BuiltinThemePath = None \<longrightarrow>
      fst (getStylesheet env f bf st) = [] \<and>
      stylesheetsCache (snd (getStylesheet env f bf st)) (getThemeFolder env @ f, bf) = Some []) \<and>
   stylesheetsCache (snd (getStylesheet env f bf st)) (getThemeFolder env @ f, bf) =
     Some (fst (getStylesheet env f bf st)) \<and>
   (stylesheetsCache st (path, bf) = Some s \<and> (\<forall>ec \<in> set calls. \<not> clears_cache (snd ec)) \<longrightarrow>
      stylesheetsCache (run calls st) (path, bf) = Some s \<and>
      (\<forall>env' f'. getThemeFolder env' @ f' = path \<longrightarrow>
         getStylesheet env' f' bf (run calls st) = (s, run calls st))) \<and>
   stylesheetsCache (setThemeColor_index env i st) = Map.empty"
proof -
  have miss: "fst (getStylesheet env f bf st) = fst (resolve env f bf st) \<and>
      stylesheetsCache (snd (getStylesheet env f bf st)) (getThemeFolder env @ f, bf) =
        Some (fst (resolve env f bf st))"
    if "stylesheetsCache st (getThemeFolder env @ f, bf) = None"
    using that by (simp add: getStylesheet_miss)
  have failed: "fst (getStylesheet env f bf st) = [] \<and>
      stylesheetsCache (snd (getStylesheet env f bf st)) (getThemeFolder env @ f, bf) = Some []"
    if "stylesheetsCache st (getThemeFolder env @ f, bf) = None"
      and "openReadText env (getThemeFolder env @ f) = None"
      and "openReadText env BuiltinThemePath = None"
    using miss [OF that(1)] resolve_no_file [OF that(2,3), of bf st] by simp
  have stores: "stylesheetsCache (snd (getStylesheet env f bf st)) (getThemeFolder env @ f, bf) =
     Some (fst (getStylesheet env f bf st))"
    by (rule getStylesheet_stores)
  have kept: "stylesheetsCache (run calls st) (path, bf) = Some s \<and>
      (\<forall>env' f'. getThemeFolder env' @ f' = path \<longrightarrow>
         getStylesheet env' f' bf (run calls st) = (s, run calls st))"
    if "stylesheetsCache st (path, bf) = Some s"
      and "\<forall>ec \<in> set calls. \<not> clears_cache (snd ec)"
  proof -
    from that have "stylesheetsCache (run calls st) (path, bf) = Some s"
      by (simp add: run_keeps_entry)
    then show ?thesis
      by (auto simp: getStylesheet_hit)
  qed
  have clears: "stylesheetsCache (setThemeColor_index env i st) = Map.empty"
    by (rule setThemeColor_index_clears)
  from miss failed stores kept clears show ?thesis
    by blast
qed

text \<open>
  In the example, \<^verbatim>\<open>late.css\<close> is cached as the empty string and stays so after it
  was added to the theme, where \<^verbatim>\<open>resolve\<close> gives \<^verbatim>\<open>color: #c84e4e;\<close>; \<^verbatim>\<open>chat.css\<close>
  is cached as \<^verbatim>\<open>color: #6bc260;\<close>.
\<close>

theorem cache_entry_persists_witness:
  "fst (getStylesheet example_env ''late.css'' example_font (initial_state example_env)) = [] \<and>
   stylesheetsCache
     (snd (getStylesheet example_env ''late.css'' example_font (initial_state example_env)))
     (''/themes/default/late.css'', example_font) = Some [] \<and>
   fst (getStylesheet example_env_later ''late.css'' example_font
         (run example_calls
            (snd (getStylesheet example_env ''late.css'' example_font
                   (initial_state example_env))))) = [] \<and>
   fst (resolve example_env_later ''late.css'' example_font
         (run example_calls
            (snd (getStylesheet example_env ''late.css'' example_font
                   (initial_state example_env))))) = ''color: #c84e4e;'' \<and>
   fst (getStylesheet example_env ''chat.css'' example_font (initial_state example_env)) =
     ''color: #6bc260;'' \<and>
   stylesheetsCache
     (snd (getStylesheet example_env ''chat.css'' example_font (initial_state example_env)))
     (''/themes/default/chat.css'', example_font) = Some ''color: #6bc260;'' \<and>
   fst (getStylesheet example_env_later ''chat.css'' example_font
         (run example_calls
            (snd (getStylesheet example_env ''chat.css'' example_font
                   (initial_state example_env))))) = ''color: #6bc260;''"
proof -
  define st1 where
    "st1 = snd (getStylesheet example_env ''late.css'' example_font (initial_state example_env))"
  define st2 where
    "st2 = snd (getStylesheet example_env ''chat.css'' example_font (initial_state example_env))"
  have miss: "stylesheetsCache (initial_state example_env)
     (getThemeFolder example_env @ f, example_font) = None" for f
    by (simp add: initial_state_def)
  have no_file:
    "openReadText example_env (getThemeFolder example_env @ ''late.css'') = None"
    "openReadText example_env BuiltinThemePath = None"
    unfolding example_folder
    by (simp_all add: example_env_def example_files_def BuiltinThemePath_def)
  have calls: "\<forall>ec \<in> set example_calls. \<not> clears_cache (snd ec)"
    by (simp add: example_calls_def)
  note late = cache_entry_persists [where env = example_env and f = "''late.css''"
      and bf = example_font and st = "initial_state example_env"]
  note chat = cache_entry_persists [where env = example_env and f = "''chat.css''"
      and bf = example_font and st = "initial_state example_env"]
  note kept1 = cache_entry_persists [where bf = example_font and st = st1
      and path = "''/themes/default/late.css''" and s = "[]" and calls = example_calls]
  note kept2 = cache_entry_persists [where bf = example_font and st = st2
      and path = "''/themes/default/chat.css''" and s = "''color: #6bc260;''"
      and calls = example_calls]
  from late miss [of "''late.css''"] no_file have empty:
    "fst (getStylesheet example_env ''late.css'' example_font (initial_state example_env)) = []"
    "stylesheetsCache st1 (getThemeFolder example_env @ ''late.css'', example_font) = Some []"
    unfolding st1_def by blast+
  from chat miss [of "''chat.css''"] have
    "fst (getStylesheet example_env ''chat.css'' example_font (initial_state example_env)) =
       fst (resolve example_env ''chat.css'' example_font (initial_state example_env))"
    "stylesheetsCache st2 (getThemeFolder example_env @ ''chat.css'', example_font) =
       Some (fst (resolve example_env ''chat.css'' example_font (initial_state example_env)))"
    unfolding st2_def by blast+
  then have green:
    "fst (getStylesheet example_env ''chat.css'' example_font (initial_state example_env)) =
       ''color: #6bc260;''"
    "stylesheetsCache st2 (getThemeFolder example_env @ ''chat.css'', example_font) =
       Some ''color: #6bc260;''"
    by (simp_all only: example_resolve_chat)
  from empty(2) have "stylesheetsCache st1 (''/themes/default/late.css'', example_font) = Some []"
    by (simp add: example_folder)
  with kept1 calls have later1:
    "getStylesheet example_env_later ''late.css'' example_font (run example_calls st1) =
       ([], run example_calls st1)"
    by (simp add: example_folder_later)
  from green(2) have
    "stylesheetsCache st2 (''/themes/default/chat.css'', example_font) = Some ''color: #6bc260;''"
    by (simp add: example_folder)
  with kept2 calls have later2:
    "getStylesheet example_env_later ''chat.css'' example_font (run example_calls st2) =
       (''color: #6bc260;'', run example_calls st2)"
    by (simp add: example_folder_later)
  from empty green later1 later2 example_resolve_late_later show ?thesis
    unfolding st1_def st2_def example_folder by simp
qed

end
